theory Spec2Isabelle
  imports Main "HOL-Library.Word"
begin

section \<open>Errors and strings\<close>

text \<open>
  A Go \<^verbatim>\<open>error\<close> is a value with an identity and a message.  The code compares errors
  against package-level sentinels by identity (\<^verbatim>\<open>err == repo.ErrNotFound\<close>) and reads
  the message with \<^verbatim>\<open>err.Error()\<close>.  \<open>Err i m\<close> is the error of identity \<open>i\<close> and
  message \<open>m\<close>; \<open>Anon\<close> is the identity of every error made on the spot by
  \<^verbatim>\<open>fmt.Errorf\<close> or returned by a library.  \<open>Panic\<close> is not an error value: it stands
  for a run-time panic (a nil dereference), which no caller of the modelled code recovers.
\<close>

datatype errid = NoRemoteClient | NotFound | NoHistory | NoLogbook | UnrecognizedAddress | Anon

datatype error = Err errid string | Panic

fun ident :: "error \<Rightarrow> errid" where
  "ident (Err i m) = i"
| "ident Panic = Anon"

fun Error_string :: "error \<Rightarrow> string" where
  "Error_string (Err i m) = m"
| "Error_string Panic = ''panic''"

definition Errorf :: "string \<Rightarrow> error" where
  "Errorf m = Err Anon m"

definition ErrNoRemoteClient :: error where
  "ErrNoRemoteClient = Err NoRemoteClient ''remote: no client to make remote requests''"

text \<open>\<^verbatim>\<open>strings.HasPrefix\<close> and \<^verbatim>\<open>strings.Contains\<close>.\<close>

definition HasPrefix :: "string \<Rightarrow> string \<Rightarrow> bool" where
  "HasPrefix s p = (length p \<le> length s \<and> take (length p) s = p)"

fun Contains :: "string \<Rightarrow> string \<Rightarrow> bool" where
  "Contains [] sub = (sub = [])"
| "Contains (c # s) sub = (HasPrefix (c # s) sub \<or> Contains s sub)"

text \<open>\<^verbatim>\<open>fmt.Sprintf("%d", n)\<close> for a signed integer: decimal digits, a minus sign first
  when negative.\<close>

fun itoa :: "nat \<Rightarrow> string" where
  "itoa n = (if n < 10 then [''0123456789'' ! n]
             else itoa (n div 10) @ [''0123456789'' ! (n mod 10)])"

declare itoa.simps [simp del]

definition fmt_d :: "int \<Rightarrow> string" where
  "fmt_d i = (if i < 0 then CHR ''-'' # itoa (nat (- i)) else itoa (nat i))"

section \<open>Dataset references and the remote client (remote/client.go)\<close>

type_synonym byte = "8 word"

text \<open>\<^verbatim>\<open>repo.DatasetRef\<close>, with the fields the code under study reads and writes;
  \<open>'d\<close> is the loaded dataset (\<^verbatim>\<open>*dataset.Dataset\<close>), \<open>None\<close> for nil.\<close>

record 'd DatasetRef =
  Peername :: string
  ProfileID :: string
  Name :: string
  Path :: string
  FSIPath :: string
  Published :: bool
  Dataset :: "'d option"

text \<open>\<^verbatim>\<open>dsref.Ref\<close>, the reference type of the logbook.\<close>

record dsref =
  Ref_Username :: string
  Ref_Name :: string
  Ref_Path :: string

text \<open>\<^verbatim>\<open>net/url.URL\<close>, \<^verbatim>\<open>url.Values\<close> and the part of \<^verbatim>\<open>http.Response\<close> that is read.\<close>

record url =
  URL_Scheme :: string
  URL_Host :: string
  URL_Path :: string
  URL_RawQuery :: string

type_synonym url_values = "string \<rightharpoonup> string list"

record response =
  StatusCode :: int
  Body :: string
  ReadErr :: "error option"

datatype transport = PeerNetwork | HTTP

datatype logop = LogPull | LogPush | LogRemove

text \<open>
  What a call sends out of the process, in order: a log-sync request on a transport, a
  block-sync push or pull with its signed meta parameters, an HTTP request (method and
  URL), a line in the log.
\<close>

datatype effect =
    LogsyncDo logop transport dsref string
  | DsyncPushDo string string "string \<rightharpoonup> string"
  | DsyncPullDo string string "string \<rightharpoonup> string"
  | HTTPDo string string
  | LogError string

text \<open>
  The libraries the client calls and the answers of the outside world, as parameters:
  libp2p crypto and peer, multihash, base64, the clock, net/url, net/http, encoding/json
  and the block synchroniser \<^verbatim>\<open>dsync\<close> of another repository.  \<open>'k\<close> is
  \<^verbatim>\<open>crypto.PrivKey\<close>.
\<close>

record ('k, 'd) ext =
  GetPublicBytes :: "'k \<Rightarrow> error + byte list"
  MultihashSum :: "byte list \<Rightarrow> error + byte list"
  B58String :: "byte list \<Rightarrow> string"
  Sign :: "'k \<Rightarrow> string \<Rightarrow> error + byte list"
  EncodeToString :: "byte list \<Rightarrow> string"
  ProfileID_String :: "string \<Rightarrow> string"
  NowUnix :: int
  IDB58Decode :: "string \<Rightarrow> error + byte list"
  URLParse :: "string \<Rightarrow> error + url"
  URLQuery :: "url \<Rightarrow> url_values"
  ValuesEncode :: "url_values \<Rightarrow> string"
  URLString :: "url \<Rightarrow> string"
  NewRequest :: "string \<Rightarrow> string \<Rightarrow> error option"
  ClientDo :: "string \<Rightarrow> string \<Rightarrow> error + response"
  JSONDecodeRef :: "response \<Rightarrow> 'd DatasetRef \<Rightarrow> error option \<times> 'd DatasetRef"
  DsyncNewPush :: "string \<Rightarrow> string \<Rightarrow> bool \<Rightarrow> error option"
  DsyncPush :: "string \<Rightarrow> string \<Rightarrow> (string \<rightharpoonup> string) \<Rightarrow> error option"
  DsyncNewPull :: "string \<Rightarrow> string \<Rightarrow> (string \<rightharpoonup> string) \<Rightarrow> error option"
  DsyncPull :: "string \<Rightarrow> string \<Rightarrow> (string \<rightharpoonup> string) \<Rightarrow> error option"
  LogsyncRun :: "logop \<Rightarrow> transport \<Rightarrow> dsref \<Rightarrow> string \<Rightarrow> error option"

text \<open>\<^verbatim>\<open>Client\<close>: the private key; the other fields are handles on the collaborators
  above, which a client that is not nil is taken to hold.  A nil \<^verbatim>\<open>*Client\<close> is
  \<open>None\<close>.\<close>

record 'k Client =
  pk :: 'k

definition addressType :: "('k, 'd) ext \<Rightarrow> string \<Rightarrow> string" where
  "addressType x remoteAddr =
     (case IDB58Decode x remoteAddr of
        Inr _ \<Rightarrow> ''p2p''
      | Inl _ \<Rightarrow> (if HasPrefix remoteAddr ''http'' then ''http'' else []))"

definition requestSigningString :: "string \<Rightarrow> string \<Rightarrow> string \<Rightarrow> string" where
  "requestSigningString timestamp peerID cidStr = timestamp @ ''.'' @ peerID @ ''.'' @ cidStr"

definition signString :: "('k, 'd) ext \<Rightarrow> 'k \<Rightarrow> string \<Rightarrow> error + string" where
  "signString x privKey str =
     (case Sign x privKey str of
        Inl e \<Rightarrow> Inl (Errorf (''error signing '' @ Error_string e))
      | Inr sigbytes \<Rightarrow> Inr (EncodeToString x sigbytes))"

definition calcProfileID :: "('k, 'd) ext \<Rightarrow> 'k \<Rightarrow> error + string" where
  "calcProfileID x privKey =
     (case GetPublicBytes x privKey of
        Inl e \<Rightarrow> Inl (Errorf (''error getting pubkey bytes: '' @ Error_string e))
      | Inr pubkeybytes \<Rightarrow>
          (case MultihashSum x pubkeybytes of
             Inl e \<Rightarrow> Inl (Errorf (''error summing pubkey: '' @ Error_string e))
           | Inr mh \<Rightarrow> Inr (B58String x mh)))"

definition sigParams :: "('k, 'd) ext \<Rightarrow> 'k \<Rightarrow> 'd DatasetRef \<Rightarrow> error + (string \<rightharpoonup> string)" where
  "sigParams x k ref =
     (case calcProfileID x k of
        Inl e \<Rightarrow> Inl e
      | Inr pid \<Rightarrow>
          (let now = fmt_d (NowUnix x);
               rss = requestSigningString now pid (Path ref)
           in case signString x k rss of
                Inl e \<Rightarrow> Inl e
              | Inr b64Sig \<Rightarrow>
                  Inr [''peername'' \<mapsto> Peername ref,
                       ''name'' \<mapsto> Name ref,
                       ''profileID'' \<mapsto> ProfileID_String x (ProfileID ref),
                       ''path'' \<mapsto> Path ref,
                       ''pid'' \<mapsto> pid,
                       ''timestamp'' \<mapsto> now,
                       ''signature'' \<mapsto> b64Sig]))"

definition resolveHeadRefHTTP ::
  "('k, 'd) ext \<Rightarrow> 'd DatasetRef \<Rightarrow> string \<Rightarrow> error option \<times> 'd DatasetRef \<times> effect list" where
  "resolveHeadRefHTTP x ref remoteAddr =
     (case URLParse x remoteAddr of
        Inl e \<Rightarrow> (Some e, ref, [])
      | Inr u0 \<Rightarrow>
          (let u = u0\<lparr>URL_Path := ''/remote/refs''\<rparr>;
               q = (URLQuery x u)(''peername'' \<mapsto> [Peername ref], ''name'' \<mapsto> [Name ref]);
               target = URLString x (u\<lparr>URL_RawQuery := ValuesEncode x q\<rparr>)
           in case NewRequest x ''GET'' target of
                Some e \<Rightarrow> (Some e, ref, [])
              | None \<Rightarrow>
                  (case ClientDo x ''GET'' target of
                     Inl e \<Rightarrow> (Some e, ref, [HTTPDo ''GET'' target])
                   | Inr res \<Rightarrow>
                       if StatusCode res \<noteq> 200
                       then (Some (Errorf (''resolving dataset ref from remote failed: '' @ Body res)),
                             ref, [HTTPDo ''GET'' target])
                       else (case JSONDecodeRef x res ref of
                               (e, ref') \<Rightarrow> (e, ref', [HTTPDo ''GET'' target])))))"

text \<open>\<^verbatim>\<open>for key, val := range params { q.Set(key, val) }\<close>: every key of \<open>params\<close> gets
  the one-element value list, the other keys of the query keep theirs.\<close>

definition set_all :: "url_values \<Rightarrow> (string \<rightharpoonup> string) \<Rightarrow> url_values" where
  "set_all q params = (\<lambda>key. case params key of Some val \<Rightarrow> Some [val] | None \<Rightarrow> q key)"

definition removeDatasetHTTP ::
  "('k, 'd) ext \<Rightarrow> (string \<rightharpoonup> string) \<Rightarrow> string \<Rightarrow> error option \<times> effect list" where
  "removeDatasetHTTP x params remoteAddr =
     (case URLParse x remoteAddr of
        Inl e \<Rightarrow> (Some e, [])
      | Inr u0 \<Rightarrow>
          (let u = u0\<lparr>URL_Path := ''/remote/refs''\<rparr>;
               q = set_all (URLQuery x u) params;
               target = URLString x (u\<lparr>URL_RawQuery := ValuesEncode x q\<rparr>)
           in case NewRequest x ''DELETE'' target of
                Some e \<Rightarrow> (Some e, [])
              | None \<Rightarrow>
                  (case ClientDo x ''DELETE'' target of
                     Inl e \<Rightarrow> (Some e, [HTTPDo ''DELETE'' target])
                   | Inr res \<Rightarrow>
                       if StatusCode res \<noteq> 200
                       then (Some (Errorf ''failed to remove dataset from remote''),
                             HTTPDo ''DELETE'' target #
                             (if ReadErr res = None
                              then [LogError (''HTTP server remove error response: '' @ Body res)]
                              else []))
                       else (None, [HTTPDo ''DELETE'' target]))))"

text \<open>
  Modelled from the spec: the log synchroniser (package \<^verbatim>\<open>logbook/logsync\<close> of this
  repository, not under src) behind \<^verbatim>\<open>NewPull\<close>, \<^verbatim>\<open>NewPush\<close> and \<^verbatim>\<open>DoRemove\<close>.
  The spec, section 4.4: dispatch to a peer-network transport or an HTTP transport based on
  parsing the remote address; a valid peer-network identifier selects that transport, an
  address with an HTTP-style prefix selects HTTP, anything else is an unrecognized-address
  error.
\<close>

definition logsync_transport :: "('k, 'd) ext \<Rightarrow> string \<Rightarrow> error + transport" where
  "logsync_transport x remoteAddr =
     (case IDB58Decode x remoteAddr of
        Inr _ \<Rightarrow> Inr PeerNetwork
      | Inl _ \<Rightarrow>
          (if HasPrefix remoteAddr ''http'' then Inr HTTP
           else Inl (Err UnrecognizedAddress (''unrecognized address: '' @ remoteAddr))))"

text \<open>
  Modelled from the spec: one log-sync operation of the absent package, on the transport
  chosen by \<open>logsync_transport\<close>; the request goes out only when a transport was chosen.
\<close>

definition logsync_do ::
  "('k, 'd) ext \<Rightarrow> logop \<Rightarrow> dsref \<Rightarrow> string \<Rightarrow> error option \<times> effect list" where
  "logsync_do x opr ref remoteAddr =
     (case logsync_transport x remoteAddr of
        Inl e \<Rightarrow> (Some e, [])
      | Inr t \<Rightarrow> (LogsyncRun x opr t ref remoteAddr, [LogsyncDo opr t ref remoteAddr]))"

text \<open>The operations of the client.  Each returns its error (\<open>None\<close> for nil) and what
  it sent out; those taking a \<^verbatim>\<open>*repo.DatasetRef\<close> also return the reference as they
  leave it.  Debug-level log lines and the progress printer of \<^verbatim>\<open>PushDataset\<close> write to
  the terminal only and are left out.\<close>

definition PullLogs ::
  "('k, 'd) ext \<Rightarrow> 'k Client option \<Rightarrow> dsref \<Rightarrow> string \<Rightarrow> error option \<times> effect list" where
  "PullLogs x c ref remoteAddr =
     (case c of
        None \<Rightarrow> (Some ErrNoRemoteClient, [])
      | Some _ \<Rightarrow>
          logsync_do x LogPull ref
            (if addressType x remoteAddr = ''http'' then remoteAddr @ ''/remote/logsync''
             else remoteAddr))"

definition PushLogs ::
  "('k, 'd) ext \<Rightarrow> 'k Client option \<Rightarrow> dsref \<Rightarrow> string \<Rightarrow> error option \<times> effect list" where
  "PushLogs x c ref remoteAddr =
     (case c of
        None \<Rightarrow> (Some ErrNoRemoteClient, [])
      | Some _ \<Rightarrow>
          logsync_do x LogPush ref
            (if addressType x remoteAddr = ''http'' then remoteAddr @ ''/remote/logsync''
             else remoteAddr))"

definition RemoveLogs ::
  "('k, 'd) ext \<Rightarrow> 'k Client option \<Rightarrow> dsref \<Rightarrow> string \<Rightarrow> error option \<times> effect list" where
  "RemoveLogs x c ref remoteAddr =
     (case c of
        None \<Rightarrow> (Some ErrNoRemoteClient, [])
      | Some _ \<Rightarrow>
          logsync_do x LogRemove ref
            (if addressType x remoteAddr = ''http'' then remoteAddr @ ''/remote/logsync''
             else remoteAddr))"

definition PushDataset ::
  "('k, 'd) ext \<Rightarrow> 'k Client option \<Rightarrow> 'd DatasetRef \<Rightarrow> string \<Rightarrow> error option \<times> effect list" where
  "PushDataset x c ref remoteAddr =
     (case c of
        None \<Rightarrow> (Some ErrNoRemoteClient, [])
      | Some cl \<Rightarrow>
          (let addr = (if addressType x remoteAddr = ''http'' then remoteAddr @ ''/remote/dsync''
                       else remoteAddr)
           in case DsyncNewPush x (Path ref) addr True of
                Some e \<Rightarrow> (Some e, [])
              | None \<Rightarrow>
                  (case sigParams x (pk cl) ref of
                     Inl e \<Rightarrow> (Some e, [])
                   | Inr params \<Rightarrow>
                       (DsyncPush x (Path ref) addr params,
                        [DsyncPushDo (Path ref) addr params]))))"

definition ResolveHeadRef ::
  "('k, 'd) ext \<Rightarrow> 'k Client option \<Rightarrow> 'd DatasetRef \<Rightarrow> string
     \<Rightarrow> error option \<times> 'd DatasetRef \<times> effect list" where
  "ResolveHeadRef x c ref remoteAddr =
     (case c of
        None \<Rightarrow> (Some ErrNoRemoteClient, ref, [])
      | Some _ \<Rightarrow>
          (if addressType x remoteAddr = ''http'' then resolveHeadRefHTTP x ref remoteAddr
           else (Some (Errorf ''dataset name resolution currently only works over HTTP''),
                 ref, [])))"

definition PullDataset ::
  "('k, 'd) ext \<Rightarrow> 'k Client option \<Rightarrow> 'd DatasetRef \<Rightarrow> string
     \<Rightarrow> error option \<times> 'd DatasetRef \<times> effect list" where
  "PullDataset x c ref remoteAddr =
     (case c of
        None \<Rightarrow> (Some ErrNoRemoteClient, ref, [])
      | Some cl \<Rightarrow>
          (case (if Path ref = [] then ResolveHeadRef x c ref remoteAddr else (None, ref, [])) of
             (Some e, ref1, fx) \<Rightarrow>
               (Some e, ref1, fx @ [LogError (''resolving head ref: '' @ Error_string e)])
           | (None, ref1, fx) \<Rightarrow>
               (case sigParams x (pk cl) ref1 of
                  Inl e \<Rightarrow>
                    (Some e, ref1, fx @ [LogError (''generating sig params: '' @ Error_string e)])
                | Inr params \<Rightarrow>
                    (case DsyncNewPull x (Path ref1) (remoteAddr @ ''/remote/dsync'') params of
                       Some e \<Rightarrow>
                         (Some e, ref1, fx @ [LogError (''creating pull: '' @ Error_string e)])
                     | None \<Rightarrow>
                         (DsyncPull x (Path ref1) (remoteAddr @ ''/remote/dsync'') params, ref1,
                          fx @ [DsyncPullDo (Path ref1) (remoteAddr @ ''/remote/dsync'') params])))))"

definition RemoveDataset ::
  "('k, 'd) ext \<Rightarrow> 'k Client option \<Rightarrow> 'd DatasetRef \<Rightarrow> string \<Rightarrow> error option \<times> effect list" where
  "RemoveDataset x c ref remoteAddr =
     (case c of
        None \<Rightarrow> (Some ErrNoRemoteClient, [])
      | Some cl \<Rightarrow>
          (case sigParams x (pk cl) ref of
             Inl e \<Rightarrow> (Some e, [])
           | Inr params \<Rightarrow>
               (if addressType x remoteAddr = ''http'' then removeDatasetHTTP x params remoteAddr
                else (Some (Errorf ''dataset remove requests currently only work over HTTP''),
                      []))))"

section \<open>The acquisition coordinator (actions/dataset.go)\<close>

text \<open>
  \<^verbatim>\<open>AddDataset\<close> starts up to two goroutines, one pulling from the registry and one
  fetching over the peer network, and receives their responses on an unbuffered channel.
  The model is an interleaving semantics: the state of the coordinator and of its tasks,
  and one step per event.  An event is the return of a task's fetch call, after which the
  task blocks sending its response, or the coordinator receiving the response of one
  blocked task.  A schedule is a list of events; every interleaving of the goroutines is
  some schedule.  The registry task works on a copy of the caller's reference, which its
  response carries.  The peer-network task is handed the caller's reference itself: what
  \<^verbatim>\<open>base.FetchDataset\<close> wrote is in \<^verbatim>\<open>*ref\<close> when the call returns, whether it
  failed or not, and its response points to that same reference.  Once the coordinator has
  adopted a response it reads \<^verbatim>\<open>*ref\<close> without synchronisation; a write of a task still
  running then is a data race, which the model does not follow: the reference stays as
  adopted.
\<close>

datatype task = RegistryTask | P2PTask

record 'd addResponse =
  Ref :: "'d DatasetRef"
  Error :: "error option"

record QriNode =
  Online :: bool

text \<open>
  The collaborators of \<^verbatim>\<open>AddDataset\<close>: \<^verbatim>\<open>ref.Complete\<close>, \<^verbatim>\<open>ResolveDatasetRef\<close> of
  the same package (not under src), the reference store of the repository (\<open>'r\<close> is its
  state), \<^verbatim>\<open>dsfs.LoadDataset\<close>, and the recency rule of the spec.
\<close>

record ('k, 'd, 'r) collab =
  Complete :: "'d DatasetRef \<Rightarrow> bool"
  ResolveDatasetRef ::
    "QriNode \<Rightarrow> 'k Client option \<Rightarrow> string \<Rightarrow> 'd DatasetRef \<Rightarrow> error option \<times> 'd DatasetRef"
  GetRef :: "'r \<Rightarrow> 'd DatasetRef \<Rightarrow> error + 'd DatasetRef"
  PutRef :: "'r \<Rightarrow> 'd DatasetRef \<Rightarrow> error option \<times> 'r"
  LoadDataset :: "'r \<Rightarrow> string \<Rightarrow> error option \<times> 'd option"
  MoreRecent :: "'d DatasetRef \<Rightarrow> 'd DatasetRef \<Rightarrow> bool"

text \<open>
  \<open>PullReturns e ref pin\<close>: in the registry task \<^verbatim>\<open>rc.PullDataset\<close> returned \<open>e\<close>,
  leaving its copy of the reference as \<open>ref\<close>; \<open>pin\<close> is \<open>None\<close> when the store is no
  \<^verbatim>\<open>cafs.Pinner\<close> and otherwise what \<^verbatim>\<open>Pin\<close> returns.  \<open>FetchReturns e ref\<close>: in the
  peer-network task \<^verbatim>\<open>base.FetchDataset\<close> returned \<open>e\<close> with the reference as \<open>ref\<close>.
  \<open>Receive t\<close>: the coordinator's \<^verbatim>\<open>res := <-responses\<close> takes the response of \<open>t\<close>.
\<close>

datatype 'd event =
    PullReturns "error option" "'d DatasetRef" "error option option"
  | FetchReturns "error option" "'d DatasetRef"
  | Receive task

text \<open>The response each task body builds from what its calls returned.\<close>

fun registry_response :: "error option \<Rightarrow> 'd DatasetRef \<Rightarrow> error option option \<Rightarrow> 'd addResponse" where
  "registry_response (Some e) ref pin = \<lparr>Ref = ref, Error = Some e\<rparr>"
| "registry_response None ref None = \<lparr>Ref = ref, Error = None\<rparr>"
| "registry_response None ref (Some pinerr) = \<lparr>Ref = ref, Error = pinerr\<rparr>"

definition p2p_response :: "error option \<Rightarrow> 'd DatasetRef \<Rightarrow> 'd addResponse" where
  "p2p_response e ref = \<lparr>Ref = ref, Error = e\<rparr>"

text \<open>
  The state of the race.  \<open>running\<close>: tasks whose fetch call has not returned;
  \<open>blocked\<close>: tasks waiting in \<^verbatim>\<open>responses <- res\<close> with their response; \<open>observed\<close>:
  for a task whose call has returned, whether the shared \<^verbatim>\<open>fetchCtx\<close> it was given was
  cancelled by then; \<open>cancelled\<close>: \<^verbatim>\<open>cancelFetch\<close> has been called; \<open>received\<close>: the
  responses taken from the channel so far, in order; \<open>add_i\<close>, \<open>add_err\<close>,
  \<open>add_success\<close>, \<open>add_ref\<close>: the variables \<^verbatim>\<open>i\<close>, \<^verbatim>\<open>err\<close>, \<^verbatim>\<open>success\<close> and
  \<^verbatim>\<open>*ref\<close>; \<open>receiving\<close>: the coordinator is in its loop, at the receive.
\<close>

record 'd race =
  running :: "task set"
  blocked :: "task \<rightharpoonup> 'd addResponse"
  observed :: "task \<rightharpoonup> bool"
  cancelled :: bool
  received :: "(task \<times> 'd addResponse) list"
  add_i :: nat
  add_err :: "error option"
  add_success :: bool
  add_ref :: "'d DatasetRef"
  receiving :: bool

definition finish :: "'d race \<Rightarrow> task \<Rightarrow> 'd addResponse \<Rightarrow> 'd race" where
  "finish s t res =
     (if t \<in> running s
      then s\<lparr>running := running s - {t},
             blocked := (blocked s)(t \<mapsto> res),
             observed := (observed s)(t \<mapsto> cancelled s)\<rparr>
      else s)"

text \<open>
  One iteration of
  \<^verbatim>\<open>for i := 0; i < tasks; i++ { res := <-responses; err = res.Error;
        if err == nil { cancelFetch(); success = true; *ref = *res.Ref; break } }\<close>
  on the response \<open>res\<close> of task \<open>t\<close>.
\<close>

definition receive :: "nat \<Rightarrow> 'd race \<Rightarrow> task \<Rightarrow> 'd addResponse \<Rightarrow> 'd race" where
  "receive tasks s t res =
     (let s1 = s\<lparr>blocked := (blocked s)(t := None),
                 received := received s @ [(t, res)],
                 add_err := Error res\<rparr>
      in case Error res of
           None \<Rightarrow> s1\<lparr>cancelled := True, add_success := True, add_ref := Ref res,
                      receiving := False\<rparr>
         | Some _ \<Rightarrow> s1\<lparr>add_i := Suc (add_i s), receiving := (Suc (add_i s) < tasks)\<rparr>)"

text \<open>The peer-network task leaves the caller's reference as \<open>ref\<close>.\<close>

definition write_ref :: "'d race \<Rightarrow> 'd DatasetRef \<Rightarrow> 'd race" where
  "write_ref s ref = (if add_success s then s else s\<lparr>add_ref := ref\<rparr>)"

fun step :: "nat \<Rightarrow> 'd race \<Rightarrow> 'd event \<Rightarrow> 'd race" where
  "step tasks s (PullReturns e ref pin) = finish s RegistryTask (registry_response e ref pin)"
| "step tasks s (FetchReturns e ref) =
     (if P2PTask \<in> running s
      then write_ref (finish s P2PTask (p2p_response e ref)) ref
      else s)"
| "step tasks s (Receive t) =
     (if receiving s
      then (case blocked s t of None \<Rightarrow> s | Some res \<Rightarrow> receive tasks s t res)
      else s)"

text \<open>The tasks \<^verbatim>\<open>AddDataset\<close> starts: the registry task when there is a client and a
  remote address, the peer-network task when the node is online.\<close>

definition launch :: "QriNode \<Rightarrow> 'k Client option \<Rightarrow> string \<Rightarrow> task list" where
  "launch node rc remoteAddr =
     (if rc \<noteq> None \<and> remoteAddr \<noteq> [] then [RegistryTask] else [])
     @ (if Online node then [P2PTask] else [])"

definition start :: "task list \<Rightarrow> 'd DatasetRef \<Rightarrow> 'd race" where
  "start launched ref =
     \<lparr>running = set launched, blocked = Map.empty, observed = Map.empty, cancelled = False,
      received = [], add_i = 0, add_err = None, add_success = False, add_ref = ref,
      receiving = (0 < length launched)\<rparr>"

definition run :: "task list \<Rightarrow> 'd DatasetRef \<Rightarrow> 'd event list \<Rightarrow> 'd race" where
  "run launched ref es = foldl (step (length launched)) (start launched ref) es"

text \<open>
  Modelled from the spec: \<^verbatim>\<open>base.ReplaceRefIfMoreRecent\<close> (package \<^verbatim>\<open>base\<close> of this
  repository, not under src).  The spec, section 4.5: the newly fetched and existing
  versions are compared and the more recent one, by a recency rule such as revision depth
  or timestamp, wins and replaces the stored reference.
\<close>

definition ReplaceRefIfMoreRecent ::
  "('k, 'd, 'r) collab \<Rightarrow> 'r \<Rightarrow> 'd DatasetRef \<Rightarrow> 'd DatasetRef \<Rightarrow> error option \<times> 'r" where
  "ReplaceRefIfMoreRecent a r prev cur = PutRef a r (if MoreRecent a cur prev then cur else prev)"

text \<open>What \<^verbatim>\<open>AddDataset\<close> returns and leaves behind: its error, the caller's reference,
  the state of the reference store, and the tasks it started.\<close>

record ('d, 'r) added =
  add_error :: "error option"
  added_ref :: "'d DatasetRef"
  added_repo :: "'r"
  started :: "task list"

text \<open>The part of \<^verbatim>\<open>AddDataset\<close> after the race, on the adopted reference.\<close>

definition store_ref ::
  "('k, 'd, 'r) collab \<Rightarrow> 'r \<Rightarrow> 'd DatasetRef \<Rightarrow> error option \<times> 'd DatasetRef \<times> 'r" where
  "store_ref a r ref =
     (case GetRef a r \<lparr>Peername = Peername ref, ProfileID = [], Name = Name ref, Path = [],
                       FSIPath = [], Published = False, Dataset = None\<rparr> of
        Inl e \<Rightarrow>
          (if ident e = NotFound
           then (case PutRef a r ref of
                   (Some e', r') \<Rightarrow>
                     (Some (Errorf (''error putting dataset in repo: '' @ Error_string e')), ref, r')
                 | (None, r') \<Rightarrow> (None, ref, r'))
           else (Some e, ref, r))
      | Inr prevRef \<Rightarrow>
          (case LoadDataset a r (Path prevRef) of
             (Some e, _) \<Rightarrow> (Some (Errorf (''error loading repo dataset: '' @ Path prevRef)), ref, r)
           | (None, pds) \<Rightarrow>
               (case LoadDataset a r (Path ref) of
                  (Some e, ds) \<Rightarrow>
                    (Some (Errorf (''error loading added dataset: '' @ Path ref)),
                     ref\<lparr>Dataset := ds\<rparr>, r)
                | (None, ds) \<Rightarrow>
                    (case ReplaceRefIfMoreRecent a r (prevRef\<lparr>Dataset := pds\<rparr>)
                            (ref\<lparr>Dataset := ds\<rparr>) of
                       (e, r') \<Rightarrow> (e, ref\<lparr>Dataset := ds\<rparr>, r')))))"

text \<open>
  \<^verbatim>\<open>AddDataset\<close> under the schedule \<open>es\<close>, on the reference store \<open>r\<close>.  \<open>None\<close>: at
  the end of the schedule the coordinator is still waiting on the channel and has not
  returned.
\<close>

definition AddDataset ::
  "('k, 'd, 'r) collab \<Rightarrow> QriNode \<Rightarrow> 'k Client option \<Rightarrow> string \<Rightarrow> 'd DatasetRef \<Rightarrow> 'r
     \<Rightarrow> 'd event list \<Rightarrow> ('d, 'r) added option" where
  "AddDataset a node rc remoteAddr ref r es =
     (case (if Complete a ref then (None, ref) else ResolveDatasetRef a node rc remoteAddr ref) of
        (Some e, ref1) \<Rightarrow>
          Some \<lparr>add_error = Some e, added_ref = ref1, added_repo = r, started = []\<rparr>
      | (None, ref1) \<Rightarrow>
          (let launched = launch node rc remoteAddr;
               tasks = length launched
           in if tasks = 0
              then Some \<lparr>add_error = Some (Errorf ''no registry configured and node is not online''),
                         added_ref = ref1, added_repo = r, started = launched\<rparr>
              else
                (let s = run launched ref1 es
                 in if receiving s then None
                    else if \<not> add_success s
                    then Some \<lparr>add_error =
                                  Some (case add_err s of
                                          Some e \<Rightarrow> Errorf (''add failed: '' @ Error_string e)
                                        | None \<Rightarrow> Panic),
                               added_ref = add_ref s, added_repo = r, started = launched\<rparr>
                    else (case store_ref a r (add_ref s) of
                            (e, ref2, r') \<Rightarrow>
                              Some \<lparr>add_error = e, added_ref = ref2, added_repo = r',
                                    started = launched\<rparr>))))"


text \<open>
  What holds of the race after every schedule, for \<open>n\<close> tasks started on the reference
  \<open>ref0\<close>.  After a success, which takes a task, the context is cancelled, the loop is
  left, and the responses received are failures followed by the one adopted.  Before one, nothing is cancelled, all
  responses received are failures, \<^verbatim>\<open>i\<close> counts them, \<^verbatim>\<open>err\<close> is the last of them, the
  caller's reference is as it was or as the peer-network task left it, and the loop goes on
  while \<^verbatim>\<open>i < tasks\<close>.
\<close>

definition race_inv :: "nat \<Rightarrow> 'd DatasetRef \<Rightarrow> 'd race \<Rightarrow> bool" where
  "race_inv n ref0 s =
     ((add_success s \<longrightarrow>
         cancelled s \<and> \<not> receiving s \<and> add_err s = None \<and> 0 < n
         \<and> (\<exists>fails t res. received s = fails @ [(t, res)] \<and> Error res = None
               \<and> (\<forall>x \<in> set fails. Error (snd x) \<noteq> None) \<and> add_ref s = Ref res))
      \<and> (\<not> add_success s \<longrightarrow>
         \<not> cancelled s \<and> (\<forall>x \<in> set (received s). Error (snd x) \<noteq> None)
         \<and> add_i s = length (received s)
         \<and> (add_ref s = ref0
              \<or> (\<exists>res. (blocked s P2PTask = Some res \<or> (P2PTask, res) \<in> set (received s))
                      \<and> add_ref s = Ref res))
         \<and> add_err s = (if received s = [] then None else Error (snd (last (received s))))
         \<and> receiving s = (add_i s < n))
      \<and> add_i s \<le> n)"

section \<open>Dataset requests (package lib)\<close>

text \<open>\<^verbatim>\<open>dsref.Rev\<close>, \<^verbatim>\<open>RemoveParams\<close>, \<^verbatim>\<open>RemoveResponse\<close>, \<^verbatim>\<open>AddParams\<close>, an item of
  \<^verbatim>\<open>base.DatasetLog\<close>, and \<^verbatim>\<open>DatasetRequests\<close> with its RPC client \<open>'c\<close> and its
  instance \<open>'i\<close> (\<open>None\<close> for nil).  Go's \<^verbatim>\<open>int\<close> is 64 bits wide here.\<close>

record Rev =
  Rev_Field :: string
  Rev_Gen :: int

record RemoveParams =
  RemoveParams_Ref :: string
  Revision :: Rev
  Unlink :: bool
  DeleteFSIFiles :: bool

record RemoveResponse =
  RemoveResponse_Ref :: string
  NumDeleted :: int
  Unlinked :: bool
  DeletedFSIFiles :: bool

record AddParams =
  AddParams_Ref :: string
  LinkDir :: string
  RemoteAddr :: string

record DatasetLogItem =
  Item_Ref :: dsref
  Item_Published :: bool

record ('c, 'i) DatasetRequests =
  cli :: "'c option"
  inst :: "'i option"

definition wrap64 :: "int \<Rightarrow> int" where
  "wrap64 n = (n + 2 ^ 63) mod 2 ^ 64 - 2 ^ 63"

text \<open>
  The collaborators of \<^verbatim>\<open>Remove\<close> and \<^verbatim>\<open>Add\<close>, none of them under src: the RPC
  client, \<^verbatim>\<open>repo\<close>, \<^verbatim>\<open>fsi\<close>, \<^verbatim>\<open>base\<close>, the logbook behind
  \<^verbatim>\<open>r.inst.Repo().Logbook()\<close>, the accessors of the instance, and the constant
  \<^verbatim>\<open>dsref.AllGenerations\<close>.  \<open>'w\<close> is the state of repository and file system, which the
  mutating calls return updated.
\<close>

record ('c, 'i, 'k, 'd, 'w) libenv =
  CallRemove :: "'c \<Rightarrow> RemoveParams \<Rightarrow> RemoveResponse \<Rightarrow> 'w \<Rightarrow> error option \<times> RemoveResponse \<times> 'w"
  CallAdd :: "'c \<Rightarrow> AddParams \<Rightarrow> 'd DatasetRef \<Rightarrow> error option \<times> 'd DatasetRef"
  ParseDatasetRef :: "string \<Rightarrow> error + 'd DatasetRef"
  CanonicalizeDatasetRef :: "'w \<Rightarrow> 'd DatasetRef \<Rightarrow> error option \<times> 'd DatasetRef"
  Ref_String :: "'d DatasetRef \<Rightarrow> string"
  AliasString :: "'d DatasetRef \<Rightarrow> string"
  DeleteDatasetFiles :: "'w \<Rightarrow> string \<Rightarrow> error option \<times> 'w"
  FSIUnlink :: "'i \<Rightarrow> 'w \<Rightarrow> string \<Rightarrow> string \<Rightarrow> error option \<times> 'w"
  DeleteDataset :: "'w \<Rightarrow> 'd DatasetRef \<Rightarrow> error option \<times> 'w"
  DatasetLog :: "'w \<Rightarrow> 'd DatasetRef \<Rightarrow> int \<Rightarrow> int \<Rightarrow> bool \<Rightarrow> error + DatasetLogItem list"
  ModifyDatasetRef :: "'w \<Rightarrow> 'd DatasetRef \<Rightarrow> 'd DatasetRef \<Rightarrow> bool \<Rightarrow> error option \<times> 'w"
  ConvertToDsref :: "'d DatasetRef \<Rightarrow> dsref"
  WriteVersionDelete :: "'i option \<Rightarrow> 'w \<Rightarrow> dsref \<Rightarrow> int \<Rightarrow> error option \<times> 'w"
  AllGenerations :: int
  Registry_Location :: "'i \<Rightarrow> string option"
  RemoteClient :: "'i option \<Rightarrow> 'k Client option"
  Client_AddDataset ::
    "'k Client option \<Rightarrow> 'd DatasetRef \<Rightarrow> string \<Rightarrow> error option \<times> 'd DatasetRef"
  Checkout :: "'i option \<Rightarrow> string \<Rightarrow> string \<Rightarrow> error option"

text \<open>The closure \<^verbatim>\<open>removeEntireDataset\<close> of \<^verbatim>\<open>Remove\<close>.\<close>

definition removeEntireDataset ::
  "('c, 'i, 'k, 'd, 'w) libenv \<Rightarrow> ('c, 'i) DatasetRequests \<Rightarrow> RemoveParams \<Rightarrow> 'd DatasetRef
     \<Rightarrow> RemoveResponse \<Rightarrow> 'w \<Rightarrow> error option \<times> RemoveResponse \<times> 'w" where
  "removeEntireDataset L rq p ref res w =
     (case (if FSIPath ref \<noteq> [] \<and> \<not> Unlink p
            then (case inst rq of
                    None \<Rightarrow> (Some Panic, res, w)
                  | Some i \<Rightarrow>
                      (case FSIUnlink L i w (FSIPath ref) (AliasString L ref) of
                         (Some e, w') \<Rightarrow> (Some e, res, w')
                       | (None, w') \<Rightarrow> (None, res\<lparr>Unlinked := True\<rparr>, w')))
            else (None, res, w)) of
        (Some e, res1, w1) \<Rightarrow> (Some e, res1, w1)
      | (None, res1, w1) \<Rightarrow>
          (case DeleteDataset L w1 ref of
             (Some e, w2) \<Rightarrow> (Some e, res1, w2)
           | (None, w2) \<Rightarrow> (None, res1\<lparr>NumDeleted := AllGenerations L\<rparr>, w2)))"

text \<open>The block of \<^verbatim>\<open>Remove\<close> under \<^verbatim>\<open>if ref.FSIPath != ""\<close>.\<close>

definition remove_linked ::
  "('c, 'i, 'k, 'd, 'w) libenv \<Rightarrow> ('c, 'i) DatasetRequests \<Rightarrow> RemoveParams \<Rightarrow> 'd DatasetRef
     \<Rightarrow> bool \<Rightarrow> RemoveResponse \<Rightarrow> 'w \<Rightarrow> error option \<times> RemoveResponse \<times> 'w" where
  "remove_linked L rq p ref noHistory res w =
     (if FSIPath ref = [] then (None, res, w)
      else
        (case (if DeleteFSIFiles p
               then (case DeleteDatasetFiles L w (FSIPath ref) of
                       (Some e, w') \<Rightarrow> (Some e, res, w')
                     | (None, w') \<Rightarrow> (None, res\<lparr>DeletedFSIFiles := True\<rparr>, w'))
               else (None, res, w)) of
           (Some e, res1, w1) \<Rightarrow> (Some e, res1, w1)
         | (None, res1, w1) \<Rightarrow>
             (if Unlink p \<or> noHistory
              then (case inst rq of
                      None \<Rightarrow> (Some Panic, res1, w1)
                    | Some i \<Rightarrow>
                        (case FSIUnlink L i w1 (FSIPath ref) (AliasString L ref) of
                           (Some e, w2) \<Rightarrow> (Some e, res1, w2)
                         | (None, w2) \<Rightarrow> (None, res1\<lparr>Unlinked := True\<rparr>, w2)))
              else (None, res1, w1))))"

text \<open>The end of \<^verbatim>\<open>Remove\<close>, deleting \<^verbatim>\<open>p.Revision.Gen\<close> revisions of a dataset with
  history.\<close>

definition remove_revisions ::
  "('c, 'i, 'k, 'd, 'w) libenv \<Rightarrow> ('c, 'i) DatasetRequests \<Rightarrow> RemoveParams \<Rightarrow> 'd DatasetRef
     \<Rightarrow> RemoveResponse \<Rightarrow> 'w \<Rightarrow> error option \<times> RemoveResponse \<times> 'w" where
  "remove_revisions L rq p ref res w =
     (let gen = Rev_Gen (Revision p)
      in if gen = AllGenerations L then removeEntireDataset L rq p ref res w
         else if gen < 1
         then (Some (Errorf (''invalid number of revisions to delete: '' @ fmt_d gen)), res, w)
         else
           (case DatasetLog L w ref (wrap64 (gen + 1)) 0 False of
              Inl e \<Rightarrow> (Some e, res, w)
            | Inr lg \<Rightarrow>
                (if gen \<ge> int (length lg) then removeEntireDataset L rq p ref res w
                 else
                   (let dsr = lg ! nat gen;
                        replace = \<lparr>Peername = Ref_Username (Item_Ref dsr),
                                   ProfileID = ProfileID ref,
                                   Name = Ref_Name (Item_Ref dsr),
                                   Path = Ref_Path (Item_Ref dsr),
                                   FSIPath = [], Published = Item_Published dsr,
                                   Dataset = None\<rparr>
                    in case ModifyDatasetRef L w ref replace False of
                         (Some e, w1) \<Rightarrow> (Some e, res, w1)
                       | (None, w1) \<Rightarrow>
                           (case WriteVersionDelete L (inst rq) w1 (ConvertToDsref L ref) gen of
                              (err, w2) \<Rightarrow>
                                ((case err of
                                    None \<Rightarrow> None
                                  | Some e \<Rightarrow> if ident e = NoLogbook then None else Some e),
                                 res\<lparr>NumDeleted := gen\<rparr>, w2))))))"

definition Remove ::
  "('c, 'i, 'k, 'd, 'w) libenv \<Rightarrow> ('c, 'i) DatasetRequests \<Rightarrow> RemoveParams \<Rightarrow> RemoveResponse
     \<Rightarrow> 'w \<Rightarrow> error option \<times> RemoveResponse \<times> 'w" where
  "Remove L rq p res w =
     (case cli rq of
        Some c \<Rightarrow> CallRemove L c p res w
      | None \<Rightarrow>
          (if Rev_Field (Revision p) \<noteq> ''ds''
           then (Some (Errorf ''can only remove whole dataset versions, not individual components''),
                 res, w)
           else
             (case ParseDatasetRef L (RemoveParams_Ref p) of
                Inl e \<Rightarrow> (Some e, res, w)
              | Inr ref0 \<Rightarrow>
                  (case CanonicalizeDatasetRef L w ref0 of
                     (canonErr, ref) \<Rightarrow>
                       (if canonErr \<noteq> None \<and> ident (the canonErr) \<noteq> NoHistory
                        then (canonErr, res, w)
                        else
                          (let noHistory = (canonErr \<noteq> None);
                               res1 = res\<lparr>RemoveResponse_Ref := Ref_String L ref\<rparr>
                           in if FSIPath ref = [] \<and> Unlink p
                              then (Some (Errorf ''cannot unlink, dataset is not linked to a directory''),
                                    res1, w)
                              else if FSIPath ref = [] \<and> DeleteFSIFiles p
                              then (Some (Errorf
                                      ''can't delete files, dataset is not linked to a directory''),
                                    res1, w)
                              else
                                (case remove_linked L rq p ref noHistory res1 w of
                                   (Some e, res2, w2) \<Rightarrow> (Some e, res2, w2)
                                 | (None, res2, w2) \<Rightarrow>
                                     (if noHistory then (None, res2, w2)
                                      else remove_revisions L rq p ref res2 w2))))))))"

text \<open>What \<^verbatim>\<open>Add\<close> calls, in order: what its \<^verbatim>\<open>PullLogs\<close> sent out, a line in the log,
  \<^verbatim>\<open>AddDataset\<close> on the remote client, \<^verbatim>\<open>Checkout\<close>.\<close>

datatype 'd libcall =
    ClientEffect effect
  | LogErrorf string
  | AddDatasetCall "'d DatasetRef" string
  | CheckoutCall string string

text \<open>\<^verbatim>\<open>Add\<close> from the call of \<^verbatim>\<open>AddDataset\<close> on.\<close>

definition add_dataset ::
  "('c, 'i, 'k, 'd, 'w) libenv \<Rightarrow> ('c, 'i) DatasetRequests \<Rightarrow> AddParams \<Rightarrow> 'd DatasetRef
     \<Rightarrow> 'd DatasetRef \<Rightarrow> error option \<times> 'd DatasetRef \<times> 'd libcall list" where
  "add_dataset L rq p ref res =
     (case Client_AddDataset L (RemoteClient L (inst rq)) ref (RemoteAddr p) of
        (Some e, ref1) \<Rightarrow> (Some e, res, [AddDatasetCall ref (RemoteAddr p)])
      | (None, ref1) \<Rightarrow>
          (if LinkDir p \<noteq> []
           then (Checkout L (inst rq) (Ref_String L ref1) (LinkDir p), ref1,
                 [AddDatasetCall ref (RemoteAddr p),
                  CheckoutCall (Ref_String L ref1) (LinkDir p)])
           else (None, ref1, [AddDatasetCall ref (RemoteAddr p)])))"

definition Add ::
  "('c, 'i, 'k, 'd, 'w) libenv \<Rightarrow> ('k, 'd) ext \<Rightarrow> ('c, 'i) DatasetRequests \<Rightarrow> AddParams
     \<Rightarrow> 'd DatasetRef \<Rightarrow> error option \<times> 'd DatasetRef \<times> 'd libcall list" where
  "Add L x rq p res =
     (case cli rq of
        Some c \<Rightarrow> (case CallAdd L c p res of (e, res') \<Rightarrow> (e, res', []))
      | None \<Rightarrow>
          (case ParseDatasetRef L (AddParams_Ref p) of
             Inl e \<Rightarrow> (Some e, res, [])
           | Inr ref \<Rightarrow>
               (let p1 = (case inst rq of
                            None \<Rightarrow> p
                          | Some i \<Rightarrow>
                              (case Registry_Location L i of
                                 None \<Rightarrow> p
                               | Some loc \<Rightarrow> if RemoteAddr p = [] then p\<lparr>RemoteAddr := loc\<rparr> else p))
                in case PullLogs x (RemoteClient L (inst rq)) (ConvertToDsref L ref) (RemoteAddr p1) of
                     (pullLogsErr, fx) \<Rightarrow>
                       (case add_dataset L rq p1 ref res of
                          (e, res', calls) \<Rightarrow>
                            (e, res',
                             map ClientEffect fx
                             @ (case pullLogsErr of
                                  None \<Rightarrow> []
                                | Some le \<Rightarrow> [LogErrorf (''pulling logs: '' @ Error_string le)])
                             @ calls)))))"

section \<open>Reading the configuration (package core)\<close>

text \<open>
  \<^verbatim>\<open>config.Config\<close> is a struct of pointers to sections; two of them, the profile and the
  P2P section, hold a private key.  \<open>'a\<close>, \<open>'b\<close> and \<open>'c\<close> are the other fields of the
  profile, of the P2P section and of the configuration.
\<close>

record 'a ProfilePod =
  Profile_PrivKey :: string
  Profile_rest :: 'a

record 'b P2PCfg =
  P2P_PrivKey :: string
  P2P_rest :: 'b

record ('a, 'b, 'c) Config =
  Profile :: "'a ProfilePod option"
  P2P :: "'b P2PCfg option"
  Config_rest :: 'c

record GetConfigParams =
  WithPrivateKey :: bool
  Format :: string
  Concise :: bool
  Field :: string

text \<open>The value handed to the encoder: the configuration or one field of it.\<close>

datatype ('cfg, 'v) encodable = Whole 'cfg | FieldValue 'v

text \<open>\<^verbatim>\<open>cfg.Get\<close> and the three encoders, which return bytes and an error.\<close>

record ('a, 'b, 'c, 'v) codec =
  Config_Get :: "('a, 'b, 'c) Config \<Rightarrow> string \<Rightarrow> error + 'v"
  json_Marshal :: "(('a, 'b, 'c) Config, 'v) encodable \<Rightarrow> byte list \<times> error option"
  json_MarshalIndent :: "(('a, 'b, 'c) Config, 'v) encodable \<Rightarrow> byte list \<times> error option"
  yaml_Marshal :: "(('a, 'b, 'c) Config, 'v) encodable \<Rightarrow> byte list \<times> error option"

text \<open>
  \<^verbatim>\<open>*cfg = *Config\<close> copies the pointers to the sections, not the sections: the two
  assignments \<^verbatim>\<open>cfg.Profile.PrivKey = ""\<close> and \<^verbatim>\<open>cfg.P2P.PrivKey = ""\<close> write into the
  sections of the global configuration as well.
\<close>

definition blank_keys :: "('a, 'b, 'c) Config \<Rightarrow> ('a, 'b, 'c) Config" where
  "blank_keys cfg =
     cfg\<lparr>Profile := map_option (\<lambda>pro. pro\<lparr>Profile_PrivKey := []\<rparr>) (Profile cfg),
         P2P := map_option (\<lambda>p2p. p2p\<lparr>P2P_PrivKey := []\<rparr>) (P2P cfg)\<rparr>"

text \<open>\<^verbatim>\<open>GetConfig\<close> on the global \<^verbatim>\<open>Config\<close> (\<open>None\<close> for nil) and the caller's \<^verbatim>\<open>*data\<close>:
  the error, the bytes in \<^verbatim>\<open>*data\<close> and the global configuration afterwards.\<close>

definition GetConfig ::
  "('a, 'b, 'c, 'v) codec \<Rightarrow> GetConfigParams \<Rightarrow> byte list \<Rightarrow> ('a, 'b, 'c) Config option
     \<Rightarrow> error option \<times> byte list \<times> ('a, 'b, 'c) Config option" where
  "GetConfig E params data global =
     (case global of
        None \<Rightarrow> (Some Panic, data, global)
      | Some c0 \<Rightarrow>
          (let cfg = (if \<not> WithPrivateKey params then blank_keys c0 else c0)
           in case (if Field params \<noteq> []
                    then (case Config_Get E cfg (Field params) of
                            Inl e \<Rightarrow>
                              Inl (Errorf (''error getting '' @ Field params @ '' from config: ''
                                           @ Error_string e))
                          | Inr v \<Rightarrow> Inr (FieldValue v))
                    else Inr (Whole cfg)) of
                Inl e \<Rightarrow> (Some e, data, Some cfg)
              | Inr encode \<Rightarrow>
                  (case (if Format params = ''json''
                         then (if Concise params then json_Marshal E encode
                               else json_MarshalIndent E encode)
                         else if Format params = ''yaml'' then yaml_Marshal E encode
                         else (data, None)) of
                     (data', Some e) \<Rightarrow>
                       (Some (Errorf (''error getting config: '' @ Error_string e)), data', Some cfg)
                   | (data', None) \<Rightarrow> (None, data', Some cfg))))"

section \<open>What the specification asks of a signed request\<close>

text \<open>
  The signed parameters of a request for \<open>ref\<close> under the key \<open>k\<close>, in the words of the
  spec: the profile ID is the base58 multihash digest of the public key bytes, the signing
  string is timestamp, profile ID and content path joined by dots, the signature is the
  base64 text of the key's signature on it, and the parameters are exactly peername, name,
  profileID, path, pid, timestamp and signature.
\<close>

definition signed_params ::
  "('k, 'd) ext \<Rightarrow> 'k \<Rightarrow> 'd DatasetRef \<Rightarrow> (string \<rightharpoonup> string) \<Rightarrow> bool" where
  "signed_params x k ref m =
     (case GetPublicBytes x k of
        Inl _ \<Rightarrow> False
      | Inr pubkeybytes \<Rightarrow>
          (case MultihashSum x pubkeybytes of
             Inl _ \<Rightarrow> False
           | Inr mh \<Rightarrow>
               (case Sign x k (fmt_d (NowUnix x) @ ''.'' @ B58String x mh @ ''.'' @ Path ref) of
                  Inl _ \<Rightarrow> False
                | Inr sigbytes \<Rightarrow>
                    dom m = {''peername'', ''name'', ''profileID'', ''path'', ''pid'',
                             ''timestamp'', ''signature''}
                    \<and> m ''peername'' = Some (Peername ref)
                    \<and> m ''name'' = Some (Name ref)
                    \<and> m ''profileID'' = Some (ProfileID_String x (ProfileID ref))
                    \<and> m ''path'' = Some (Path ref)
                    \<and> m ''pid'' = Some (B58String x mh)
                    \<and> m ''timestamp'' = Some (fmt_d (NowUnix x))
                    \<and> m ''signature'' = Some (EncodeToString x sigbytes))))"

section \<open>A test double of the collaborators\<close>

text \<open>
  Concrete collaborators to run the model on: a key that signs everything, a decoder that
  knows one peer, a URL parser for \<^verbatim>\<open>http://host\<close>, a remote that answers 200 and
  resolves every reference to one head, and synchronisers that succeed.
\<close>

definition demo_encode :: "url_values \<Rightarrow> string" where
  "demo_encode q =
     concat (map (\<lambda>key. case q key of
                          Some (v # _) \<Rightarrow> key @ ''='' @ v @ ''&''
                        | _ \<Rightarrow> [])
                 [''name'', ''path'', ''peername'', ''pid'', ''profileID'', ''signature'',
                  ''timestamp''])"

definition demo_ext :: "(nat, unit) ext" where
  "demo_ext =
     \<lparr>GetPublicBytes = (\<lambda>k. Inr [of_nat k]),
      MultihashSum = (\<lambda>b. Inr (0x12 # 0x20 # b)),
      B58String = (\<lambda>b. ''QmKey''),
      Sign = (\<lambda>k str. Inr [1, 2, 3]),
      EncodeToString = (\<lambda>b. ''AQID''),
      ProfileID_String = (\<lambda>i. i),
      NowUnix = 1572000000,
      IDB58Decode = (\<lambda>a. if a = ''QmPeer'' then Inr [] else Inl (Err Anon ''invalid peer id'')),
      URLParse = (\<lambda>a. if HasPrefix a ''http://''
                       then Inr \<lparr>URL_Scheme = ''http'', URL_Host = drop 7 a, URL_Path = [],
                                 URL_RawQuery = []\<rparr>
                       else Inl (Err Anon ''parse error'')),
      URLQuery = (\<lambda>u. Map.empty),
      ValuesEncode = demo_encode,
      URLString = (\<lambda>u. URL_Scheme u @ ''://'' @ URL_Host u @ URL_Path u @ ''?'' @ URL_RawQuery u),
      NewRequest = (\<lambda>m u. None),
      ClientDo = (\<lambda>m u. Inr \<lparr>StatusCode = 200, Body = [], ReadErr = None\<rparr>),
      JSONDecodeRef = (\<lambda>res ref. (None, ref\<lparr>Path := ''/ipfs/QmHead''\<rparr>)),
      DsyncNewPush = (\<lambda>p a pin. None),
      DsyncPush = (\<lambda>p a m. None),
      DsyncNewPull = (\<lambda>p a m. None),
      DsyncPull = (\<lambda>p a m. None),
      LogsyncRun = (\<lambda>opr t ref a. None)\<rparr>"

definition demo_ref :: "unit DatasetRef" where
  "demo_ref =
     \<lparr>Peername = ''b5'', ProfileID = ''QmProfile'', Name = ''world_bank_population'',
      Path = ''/ipfs/QmV1'', FSIPath = [], Published = False, Dataset = None\<rparr>"

definition demo_params :: "string \<rightharpoonup> string" where
  "demo_params =
     [''peername'' \<mapsto> ''b5'',
      ''name'' \<mapsto> ''world_bank_population'',
      ''profileID'' \<mapsto> ''QmProfile'',
      ''path'' \<mapsto> ''/ipfs/QmV1'',
      ''pid'' \<mapsto> ''QmKey'',
      ''timestamp'' \<mapsto> ''1572000000'',
      ''signature'' \<mapsto> ''AQID'']"

definition demo_dsref :: dsref where
  "demo_dsref = \<lparr>Ref_Username = ''b5'', Ref_Name = ''world_bank_population'', Ref_Path = []\<rparr>"

text \<open>A repository without a logbook, holding three versions of one dataset; its state
  is the list of paths the reference was moved to.\<close>

definition demo_lib :: "(unit, unit, nat, unit, string list) libenv" where
  "demo_lib =
     \<lparr>CallRemove = (\<lambda>c p res w. (None, res, w)),
      CallAdd = (\<lambda>c p res. (None, res)),
      ParseDatasetRef = (\<lambda>str. if str = ''b5/world_bank_population''
                                then Inr (demo_ref\<lparr>Path := []\<rparr>)
                                else Inl (Err Anon ''invalid reference'')),
      CanonicalizeDatasetRef = (\<lambda>w ref. (None, ref\<lparr>Path := ''/ipfs/QmV3''\<rparr>)),
      Ref_String = (\<lambda>ref. Peername ref @ ''/'' @ Name ref @ ''@'' @ Path ref),
      AliasString = (\<lambda>ref. Peername ref @ ''/'' @ Name ref),
      DeleteDatasetFiles = (\<lambda>w dir. (None, w)),
      FSIUnlink = (\<lambda>i w dir alias. (None, w)),
      DeleteDataset = (\<lambda>w ref. (None, [])),
      DatasetLog = (\<lambda>w ref limit offset b.
                      Inr (map (\<lambda>path. \<lparr>Item_Ref = \<lparr>Ref_Username = Peername ref,
                                                       Ref_Name = Name ref, Ref_Path = path\<rparr>,
                                           Item_Published = False\<rparr>)
                               [''/ipfs/QmV3'', ''/ipfs/QmV2'', ''/ipfs/QmV1''])),
      ModifyDatasetRef = (\<lambda>w ref replace isRename. (None, Path replace # w)),
      ConvertToDsref = (\<lambda>ref. \<lparr>Ref_Username = Peername ref, Ref_Name = Name ref,
                                 Ref_Path = Path ref\<rparr>),
      WriteVersionDelete = (\<lambda>i w ref n. (Some (Err NoLogbook ''logbook: does not exist''), w)),
      AllGenerations = - 1,
      Registry_Location = (\<lambda>i. Some ''http://registry.example''),
      RemoteClient = (\<lambda>i. None),
      Client_AddDataset = (\<lambda>c ref a. (None, ref\<lparr>Path := ''/ipfs/QmV3''\<rparr>)),
      Checkout = (\<lambda>i ref dir. None)\<rparr>"

definition demo_remove :: RemoveParams where
  "demo_remove =
     \<lparr>RemoveParams_Ref = ''b5/world_bank_population'',
      Revision = \<lparr>Rev_Field = ''ds'', Rev_Gen = 1\<rparr>,
      Unlink = False, DeleteFSIFiles = False\<rparr>"

definition demo_response :: RemoveResponse where
  "demo_response =
     \<lparr>RemoveResponse_Ref = [], NumDeleted = 0, Unlinked = False, DeletedFSIFiles = False\<rparr>"

text \<open>A reference store that keeps a list of references, datasets that are their
  commit times, and a node that resolves nothing offline.\<close>

definition demo_collab :: "(nat, nat, nat DatasetRef list) collab" where
  "demo_collab =
     \<lparr>Complete = (\<lambda>ref. Peername ref \<noteq> [] \<and> ProfileID ref \<noteq> [] \<and> Name ref \<noteq> [] \<and> Path ref \<noteq> []),
      ResolveDatasetRef = (\<lambda>node rc a ref. (Some (Err NotFound ''repo: not found''), ref)),
      GetRef = (\<lambda>r q. case find (\<lambda>x. Peername x = Peername q \<and> Name x = Name q) r of
                         None \<Rightarrow> Inl (Err NotFound ''repo: not found'')
                       | Some x \<Rightarrow> Inr x),
      PutRef = (\<lambda>r ref. (None, ref # filter (\<lambda>x. \<not> (Peername x = Peername ref \<and> Name x = Name ref)) r)),
      LoadDataset = (\<lambda>r path. if path = ''/ipfs/QmV1'' then (None, Some 10)
                               else if path = ''/ipfs/QmV2'' then (None, Some 20)
                               else (Some (Err Anon ''not found''), None)),
      MoreRecent = (\<lambda>cur prev. case (Dataset cur, Dataset prev) of
                                  (Some c, Some p) \<Rightarrow> p < c
                                | _ \<Rightarrow> False)\<rparr>"

definition demo_v :: "string \<Rightarrow> nat DatasetRef" where
  "demo_v path =
     \<lparr>Peername = ''b5'', ProfileID = ''QmProfile'', Name = ''world_bank_population'',
      Path = path, FSIPath = [], Published = False, Dataset = None\<rparr>"

text \<open>An encoder that writes the two private keys out, and two configurations that differ
  in them only.\<close>

definition bytes_of :: "string \<Rightarrow> byte list" where
  "bytes_of str = map (\<lambda>ch. of_nat (of_char ch)) str"

definition demo_render :: "((unit, unit, unit) Config, string) encodable \<Rightarrow> byte list" where
  "demo_render enc =
     bytes_of
       (case enc of
          Whole cfg \<Rightarrow>
            ''profile.privkey='' @ (case Profile cfg of None \<Rightarrow> [] | Some pro \<Rightarrow> Profile_PrivKey pro)
            @ '';p2p.privkey='' @ (case P2P cfg of None \<Rightarrow> [] | Some p2p \<Rightarrow> P2P_PrivKey p2p)
        | FieldValue v \<Rightarrow> v)"

definition demo_codec :: "(unit, unit, unit, string) codec" where
  "demo_codec =
     \<lparr>Config_Get = (\<lambda>cfg field.
                      if field = ''profile.privkey''
                      then (case Profile cfg of
                              None \<Rightarrow> Inl (Err Anon ''no profile'')
                            | Some pro \<Rightarrow> Inr (Profile_PrivKey pro))
                      else Inl (Err Anon ''unknown field'')),
      json_Marshal = (\<lambda>enc. (demo_render enc, None)),
      json_MarshalIndent = (\<lambda>enc. (demo_render enc, None)),
      yaml_Marshal = (\<lambda>enc. (demo_render enc, None))\<rparr>"

definition demo_config :: "string \<Rightarrow> string \<Rightarrow> (unit, unit, unit) Config" where
  "demo_config k1 k2 =
     \<lparr>Profile = Some \<lparr>Profile_PrivKey = k1, Profile_rest = ()\<rparr>,
      P2P = Some \<lparr>P2P_PrivKey = k2, P2P_rest = ()\<rparr>,
      Config_rest = ()\<rparr>"

section \<open>Properties\<close>

subsection \<open>Signed requests\<close>

lemma sigParams_cases:
  assumes "sigParams x k ref = Inr m"
  obtains pub mh sg where "GetPublicBytes x k = Inr pub" "MultihashSum x pub = Inr mh"
    "Sign x k (fmt_d (NowUnix x) @ ''.'' @ B58String x mh @ ''.'' @ Path ref) = Inr sg"
    "m = [''peername'' \<mapsto> Peername ref,
                       ''name'' \<mapsto> Name ref,
                       ''profileID'' \<mapsto> ProfileID_String x (ProfileID ref),
                       ''path'' \<mapsto> Path ref,
                       ''pid'' \<mapsto> B58String x mh,
                       ''timestamp'' \<mapsto> fmt_d (NowUnix x),
                       ''signature'' \<mapsto> EncodeToString x sg]"
  using assms
  unfolding sigParams_def calcProfileID_def signString_def requestSigningString_def
  by (auto split: sum.splits simp: Let_def)

lemma sigParams_signed: 
  assumes "sigParams x k ref = Inr m" shows "signed_params x k ref m"
proof -
  from assms obtain pub mh sg where a: "GetPublicBytes x k = Inr pub" "MultihashSum x pub = Inr mh"
    "Sign x k (fmt_d (NowUnix x) @ ''.'' @ B58String x mh @ ''.'' @ Path ref) = Inr sg"
    and m: "m = [''peername'' \<mapsto> Peername ref,
                       ''name'' \<mapsto> Name ref,
                       ''profileID'' \<mapsto> ProfileID_String x (ProfileID ref),
                       ''path'' \<mapsto> Path ref,
                       ''pid'' \<mapsto> B58String x mh,
                       ''timestamp'' \<mapsto> fmt_d (NowUnix x),
                       ''signature'' \<mapsto> EncodeToString x sg]"
    by (rule sigParams_cases)
  have d: "dom m = {''peername'', ''name'', ''profileID'', ''path'', ''pid'',
                             ''timestamp'', ''signature''}"
    unfolding m by (simp add: insert_commute)
  have v: "m ''peername'' = Some (Peername ref)" "m ''name'' = Some (Name ref)"
     "m ''profileID'' = Some (ProfileID_String x (ProfileID ref))"
     "m ''path'' = Some (Path ref)" "m ''pid'' = Some (B58String x mh)"
     "m ''timestamp'' = Some (fmt_d (NowUnix x))" "m ''signature'' = Some (EncodeToString x sg)"
    unfolding m by simp_all
  show ?thesis unfolding signed_params_def using a d v by simp
qed


lemma resolveHeadRefHTTP_effects:
  "e \<in> set (snd (snd (resolveHeadRefHTTP x ref addr))) \<Longrightarrow> \<exists>t. e = HTTPDo ''GET'' t"
  unfolding resolveHeadRefHTTP_def
  by (auto simp: Let_def split: sum.splits option.splits if_splits prod.splits)

lemma ResolveHeadRef_effects:
  "e \<in> set (snd (snd (ResolveHeadRef x c ref addr))) \<Longrightarrow> \<exists>t. e = HTTPDo ''GET'' t"
  unfolding ResolveHeadRef_def
  by (auto split: option.splits if_splits dest: resolveHeadRefHTTP_effects)

lemma PushDataset_signed:
  "DsyncPushDo p a m \<in> set (snd (PushDataset x (Some cl) ref addr))
   \<Longrightarrow> p = Path ref \<and> signed_params x (pk cl) ref m"
  unfolding PushDataset_def
  by (auto simp: Let_def split: option.splits sum.splits dest: sigParams_signed)

lemma PullDataset_signed:
  assumes "DsyncPullDo p a m \<in> set (snd (snd (PullDataset x (Some cl) ref addr)))"
  shows "p = Path (fst (snd (PullDataset x (Some cl) ref addr)))
         \<and> signed_params x (pk cl) (fst (snd (PullDataset x (Some cl) ref addr))) m"
proof -
  obtain e1 ref1 fx where r: "(if Path ref = [] then ResolveHeadRef x (Some cl) ref addr else (None, ref, [])) = (e1, ref1, fx)"
    by (cases "(if Path ref = [] then ResolveHeadRef x (Some cl) ref addr else (None, ref, []))") auto
  have nofx: "DsyncPullDo p a m \<notin> set fx"
  proof
    assume a: "DsyncPullDo p a m \<in> set fx"
    show False
    proof (cases "Path ref = []")
      case True
      with r a have "DsyncPullDo p a m \<in> set (snd (snd (ResolveHeadRef x (Some cl) ref addr)))" by simp
      from ResolveHeadRef_effects[OF this] show False by simp
    next
      case False
      with r a show False by simp
    qed
  qed
  from assms nofx show ?thesis
    unfolding PullDataset_def r
    by (auto simp: r split: option.splits sum.splits dest: sigParams_signed)
qed

lemma RemoveDataset_signed:
  "HTTPDo meth t \<in> set (snd (RemoveDataset x (Some cl) ref addr))
   \<Longrightarrow> meth = ''DELETE'' \<and> (\<exists>u m. URLParse x addr = Inr u \<and> signed_params x (pk cl) ref m \<and>
         t = URLString x (u\<lparr>URL_Path := ''/remote/refs'',
                URL_RawQuery := ValuesEncode x (set_all (URLQuery x (u\<lparr>URL_Path := ''/remote/refs''\<rparr>)) m)\<rparr>))"
  unfolding RemoveDataset_def removeDatasetHTTP_def
  by (auto simp: Let_def split: option.splits sum.splits if_splits dest: sigParams_signed)


lemma demo_fields:
  "DsyncNewPush demo_ext = (\<lambda>p a pin. None)"
  "DsyncPush demo_ext = (\<lambda>p a m. None)"
  "DsyncNewPull demo_ext = (\<lambda>p a m. None)"
  "DsyncPull demo_ext = (\<lambda>p a m. None)"
  "NewRequest demo_ext = (\<lambda>m u. None)"
  "ClientDo demo_ext = (\<lambda>m u. Inr \<lparr>StatusCode = 200, Body = [], ReadErr = None\<rparr>)"
  "URLParse demo_ext ''http://registry.example''
     = Inr \<lparr>URL_Scheme = ''http'', URL_Host = ''registry.example'', URL_Path = [],
                                 URL_RawQuery = []\<rparr>"
  "LogsyncRun demo_ext = (\<lambda>opr t ref a. None)"
  by (simp_all add: demo_ext_def HasPrefix_def)

lemma demo_sig: "\<exists>m. sigParams demo_ext 7 demo_ref = Inr m"
  by (simp add: sigParams_def calcProfileID_def signString_def demo_ext_def Let_def)

lemma demo_sigParams: "sigParams demo_ext 7 demo_ref = Inr demo_params"
  by (simp add: sigParams_def calcProfileID_def signString_def requestSigningString_def
        demo_ext_def demo_ref_def demo_params_def Let_def fmt_d_def itoa.simps)

lemma demo_request:
  "URLString demo_ext
     \<lparr>URL_Scheme = ''http'', URL_Host = ''registry.example'', URL_Path = ''/remote/refs'',
      URL_RawQuery = ValuesEncode demo_ext (set_all (URLQuery demo_ext u) demo_params)\<rparr>
   = ''http://registry.example/remote/refs?''
     @ ''name=world_bank_population&path=/ipfs/QmV1&peername=b5&pid=QmKey&''
     @ ''profileID=QmProfile&signature=AQID&timestamp=1572000000&''"
  by (simp add: demo_ext_def demo_encode_def set_all_def demo_params_def)

lemma demo_addr1: "addressType demo_ext ''http://registry.example'' = ''http''"
  by (simp add: addressType_def demo_ext_def HasPrefix_def)

text \<open>
  C1.  Every dataset push, pull or remove request that the client sends carries the signed
  parameters: the block-sync push and pull have them as meta parameters, for the path they
  transfer, and the HTTP DELETE has them set in the query of the \<^verbatim>\<open>/remote/refs\<close> URL.
  They are exactly peername, name, profileID, path, pid, timestamp and signature, where pid
  is the base58 multihash digest of the public key bytes and signature is the base64 text of
  the key's signature on \<^verbatim>\<open>timestamp.pid.path\<close> (\<open>signed_params\<close>).  A pull signs the
  reference as \<^verbatim>\<open>ResolveHeadRef\<close> left it.
\<close>

theorem signed_requests:
  "(DsyncPushDo p1 a1 m1 \<in> set (snd (PushDataset x (Some cl) ref addr))
      \<longrightarrow> p1 = Path ref \<and> signed_params x (pk cl) ref m1)
   \<and> (DsyncPullDo p2 a2 m2 \<in> set (snd (snd (PullDataset x (Some cl) ref addr)))
      \<longrightarrow> p2 = Path (fst (snd (PullDataset x (Some cl) ref addr)))
          \<and> signed_params x (pk cl) (fst (snd (PullDataset x (Some cl) ref addr))) m2)
   \<and> (HTTPDo meth t \<in> set (snd (RemoveDataset x (Some cl) ref addr))
      \<longrightarrow> meth = ''DELETE''
          \<and> (\<exists>u m. URLParse x addr = Inr u \<and> signed_params x (pk cl) ref m
                \<and> t = URLString x
                     (u\<lparr>URL_Path := ''/remote/refs'',
                        URL_RawQuery :=
                          ValuesEncode x
                            (set_all (URLQuery x (u\<lparr>URL_Path := ''/remote/refs''\<rparr>)) m)\<rparr>)))"
proof (intro conjI impI)
  assume "DsyncPushDo p1 a1 m1 \<in> set (snd (PushDataset x (Some cl) ref addr))"
  then show "p1 = Path ref" "signed_params x (pk cl) ref m1"
    using PushDataset_signed by blast+
next
  assume "DsyncPullDo p2 a2 m2 \<in> set (snd (snd (PullDataset x (Some cl) ref addr)))"
  then show "p2 = Path (fst (snd (PullDataset x (Some cl) ref addr)))"
    "signed_params x (pk cl) (fst (snd (PullDataset x (Some cl) ref addr))) m2"
    using PullDataset_signed by blast+
next
  assume "HTTPDo meth t \<in> set (snd (RemoveDataset x (Some cl) ref addr))"
  from RemoveDataset_signed [OF this]
  show "meth = ''DELETE''" and "\<exists>u m. URLParse x addr = Inr u \<and> signed_params x (pk cl) ref m
                \<and> t = URLString x
                     (u\<lparr>URL_Path := ''/remote/refs'',
                        URL_RawQuery :=
                          ValuesEncode x
                            (set_all (URLQuery x (u\<lparr>URL_Path := ''/remote/refs''\<rparr>)) m)\<rparr>)"
    by blast+
qed

text \<open>The three requests are sent, signed, on the test double.\<close>

theorem signed_requests_witness:
  "DsyncPushDo ''/ipfs/QmV1'' ''http://registry.example/remote/dsync'' demo_params
     \<in> set (snd (PushDataset demo_ext (Some \<lparr>pk = 7\<rparr>) demo_ref ''http://registry.example''))
   \<and> DsyncPullDo ''/ipfs/QmV1'' ''http://registry.example/remote/dsync'' demo_params
     \<in> set (snd (snd (PullDataset demo_ext (Some \<lparr>pk = 7\<rparr>) demo_ref ''http://registry.example'')))
   \<and> HTTPDo ''DELETE''
        (''http://registry.example/remote/refs?''
         @ ''name=world_bank_population&path=/ipfs/QmV1&peername=b5&pid=QmKey&''
         @ ''profileID=QmProfile&signature=AQID&timestamp=1572000000&'')
     \<in> set (snd (RemoveDataset demo_ext (Some \<lparr>pk = 7\<rparr>) demo_ref ''http://registry.example''))
   \<and> signed_params demo_ext 7 demo_ref demo_params
   \<and> (\<exists>u m. URLParse demo_ext ''http://registry.example'' = Inr u
          \<and> signed_params demo_ext 7 demo_ref m
          \<and> ''http://registry.example/remote/refs?''
             @ ''name=world_bank_population&path=/ipfs/QmV1&peername=b5&pid=QmKey&''
             @ ''profileID=QmProfile&signature=AQID&timestamp=1572000000&''
            = URLString demo_ext
                (u\<lparr>URL_Path := ''/remote/refs'',
                   URL_RawQuery :=
                     ValuesEncode demo_ext
                       (set_all (URLQuery demo_ext (u\<lparr>URL_Path := ''/remote/refs''\<rparr>)) m)\<rparr>))"
proof -
  let ?t = "''http://registry.example/remote/refs?''
         @ ''name=world_bank_population&path=/ipfs/QmV1&peername=b5&pid=QmKey&''
         @ ''profileID=QmProfile&signature=AQID&timestamp=1572000000&''"
  have p: "Path demo_ref = ''/ipfs/QmV1''" by (simp add: demo_ref_def)
  have push: "snd (PushDataset demo_ext (Some \<lparr>pk = 7\<rparr>) demo_ref ''http://registry.example'')
              = [DsyncPushDo ''/ipfs/QmV1'' ''http://registry.example/remote/dsync'' demo_params]"
    by (simp add: PushDataset_def demo_addr1 demo_sigParams p demo_fields)
  have pull: "PullDataset demo_ext (Some \<lparr>pk = 7\<rparr>) demo_ref ''http://registry.example''
              = (None, demo_ref,
                 [DsyncPullDo ''/ipfs/QmV1'' ''http://registry.example/remote/dsync'' demo_params])"
    by (simp add: PullDataset_def demo_sigParams p demo_fields)
  have rem: "snd (RemoveDataset demo_ext (Some \<lparr>pk = 7\<rparr>) demo_ref ''http://registry.example'')
              = [HTTPDo ''DELETE'' ?t]"
    by (simp add: RemoveDataset_def demo_sigParams demo_addr1 removeDatasetHTTP_def Let_def
          demo_fields demo_request)
  note t = signed_requests [of "''/ipfs/QmV1''" "''http://registry.example/remote/dsync''"
      demo_params demo_ext "\<lparr>pk = 7\<rparr>" demo_ref "''http://registry.example''"
      "''/ipfs/QmV1''" "''http://registry.example/remote/dsync''" demo_params "''DELETE''" ?t]
  from t push have s1: "signed_params demo_ext 7 demo_ref demo_params"
    by simp
  from t rem have s3: "\<exists>u m. URLParse demo_ext ''http://registry.example'' = Inr u
          \<and> signed_params demo_ext 7 demo_ref m
          \<and> ?t = URLString demo_ext
                (u\<lparr>URL_Path := ''/remote/refs'',
                   URL_RawQuery :=
                     ValuesEncode demo_ext
                       (set_all (URLQuery demo_ext (u\<lparr>URL_Path := ''/remote/refs''\<rparr>)) m)\<rparr>)"
    by simp
  from push pull rem s1 s3 show ?thesis by simp
qed

subsection \<open>Transport of the log operations\<close>








subsection \<open>References over HTTP only\<close>

lemma resolveHeadRefHTTP_request:
  assumes "URLParse x addr = Inr u" "\<forall>mth t. NewRequest x mth t = None"
  shows "\<exists>q. snd (snd (resolveHeadRefHTTP x ref addr))
           = [HTTPDo ''GET'' (URLString x (u\<lparr>URL_Path := ''/remote/refs'', URL_RawQuery := q\<rparr>))]"
  using assms unfolding resolveHeadRefHTTP_def
  by (auto simp: Let_def split: sum.splits prod.splits)

lemma removeDatasetHTTP_request:
  assumes "URLParse x addr = Inr u" "\<forall>mth t. NewRequest x mth t = None"
  shows "\<exists>q logs. snd (removeDatasetHTTP x m addr)
           = HTTPDo ''DELETE'' (URLString x (u\<lparr>URL_Path := ''/remote/refs'', URL_RawQuery := q\<rparr>)) # logs
           \<and> (\<forall>l \<in> set logs. \<exists>msg. l = LogError msg)"
  using assms unfolding removeDatasetHTTP_def
  by (auto simp: Let_def split: sum.splits prod.splits)

text \<open>
  C7.  On a configured client and an address whose type is not \<^verbatim>\<open>http\<close>,
  \<^verbatim>\<open>ResolveHeadRef\<close> fails with its only-over-HTTP error and \<^verbatim>\<open>RemoveDataset\<close> fails
  without sending anything, with its only-over-HTTP error whenever the request could be
  signed (signing comes first in the code, and its failure is returned instead).  On an
  address of type \<^verbatim>\<open>http\<close> that parses as a URL from which a request can be built,
  \<^verbatim>\<open>ResolveHeadRef\<close> sends one GET and \<^verbatim>\<open>RemoveDataset\<close> one DELETE, both to the path
  \<^verbatim>\<open>/remote/refs\<close> of that URL.
\<close>

theorem refs_only_over_HTTP:
  "(addressType x addr \<noteq> ''http'' \<longrightarrow>
      ResolveHeadRef x (Some cl) ref addr
        = (Some (Errorf ''dataset name resolution currently only works over HTTP''), ref, [])
      \<and> (\<exists>e. RemoveDataset x (Some cl) ref addr = (Some e, [])
            \<and> (sigParams x (pk cl) ref = Inr m \<longrightarrow>
                 e = Errorf ''dataset remove requests currently only work over HTTP'')))
   \<and> (addressType x addr = ''http'' \<and> URLParse x addr = Inr u
        \<and> (\<forall>mth t. NewRequest x mth t = None) \<longrightarrow>
      (\<exists>q. snd (snd (ResolveHeadRef x (Some cl) ref addr))
           = [HTTPDo ''GET'' (URLString x (u\<lparr>URL_Path := ''/remote/refs'', URL_RawQuery := q\<rparr>))])
      \<and> (sigParams x (pk cl) ref = Inr m \<longrightarrow>
           (\<exists>q logs. snd (RemoveDataset x (Some cl) ref addr)
              = HTTPDo ''DELETE''
                  (URLString x (u\<lparr>URL_Path := ''/remote/refs'', URL_RawQuery := q\<rparr>)) # logs
              \<and> (\<forall>l \<in> set logs. \<exists>msg. l = LogError msg))))"
proof (intro conjI impI)
  assume "addressType x addr \<noteq> ''http''"
  then show "ResolveHeadRef x (Some cl) ref addr
        = (Some (Errorf ''dataset name resolution currently only works over HTTP''), ref, [])"
    by (simp add: ResolveHeadRef_def)
next
  assume "addressType x addr \<noteq> ''http''"
  then show "\<exists>e. RemoveDataset x (Some cl) ref addr = (Some e, [])
            \<and> (sigParams x (pk cl) ref = Inr m \<longrightarrow>
                 e = Errorf ''dataset remove requests currently only work over HTTP'')"
    by (cases "sigParams x (pk cl) ref") (simp_all add: RemoveDataset_def)
next
  assume a: "addressType x addr = ''http'' \<and> URLParse x addr = Inr u
        \<and> (\<forall>mth t. NewRequest x mth t = None)"
  then show "\<exists>q. snd (snd (ResolveHeadRef x (Some cl) ref addr))
           = [HTTPDo ''GET'' (URLString x (u\<lparr>URL_Path := ''/remote/refs'', URL_RawQuery := q\<rparr>))]"
    using resolveHeadRefHTTP_request [of x addr u ref] by (simp add: ResolveHeadRef_def)
next
  assume a: "addressType x addr = ''http'' \<and> URLParse x addr = Inr u
        \<and> (\<forall>mth t. NewRequest x mth t = None)"
    and s: "sigParams x (pk cl) ref = Inr m"
  then show "\<exists>q logs. snd (RemoveDataset x (Some cl) ref addr)
              = HTTPDo ''DELETE''
                  (URLString x (u\<lparr>URL_Path := ''/remote/refs'', URL_RawQuery := q\<rparr>)) # logs
              \<and> (\<forall>l \<in> set logs. \<exists>msg. l = LogError msg)"
    using removeDatasetHTTP_request [of x addr u m] by (simp add: RemoveDataset_def)
qed

lemma demo_addr2: "addressType demo_ext ''QmPeer'' = ''p2p''"
  by (simp add: addressType_def demo_ext_def)

text \<open>
  On the test double: both operations refuse a peer address, and both send their request
  to \<^verbatim>\<open>http://registry.example/remote/refs\<close>.
\<close>

theorem refs_only_over_HTTP_witness:
  "ResolveHeadRef demo_ext (Some \<lparr>pk = 7\<rparr>) demo_ref ''QmPeer''
     = (Some (Errorf ''dataset name resolution currently only works over HTTP''), demo_ref, [])
   \<and> RemoveDataset demo_ext (Some \<lparr>pk = 7\<rparr>) demo_ref ''QmPeer''
     = (Some (Errorf ''dataset remove requests currently only work over HTTP''), [])
   \<and> (\<exists>q. snd (snd (ResolveHeadRef demo_ext (Some \<lparr>pk = 7\<rparr>) demo_ref ''http://registry.example''))
           = [HTTPDo ''GET'' (''http://registry.example/remote/refs?'' @ q)])
   \<and> (\<exists>q logs. snd (RemoveDataset demo_ext (Some \<lparr>pk = 7\<rparr>) demo_ref ''http://registry.example'')
           = HTTPDo ''DELETE'' (''http://registry.example/remote/refs?'' @ q) # logs)"
proof -
  obtain m where m: "sigParams demo_ext 7 demo_ref = Inr m" using demo_sig by blast
  have ne: "addressType demo_ext ''QmPeer'' \<noteq> ''http''" by (simp add: demo_addr2)
  have us: "\<And>q. URLString demo_ext \<lparr>URL_Scheme = ''http'', URL_Host = ''registry.example'',
                      URL_Path = ''/remote/refs'', URL_RawQuery = q\<rparr>
        = ''http://registry.example/remote/refs?'' @ q"
    by (simp add: demo_ext_def)
  note t1 = refs_only_over_HTTP [of demo_ext "''QmPeer''" "\<lparr>pk = 7\<rparr>" demo_ref m]
  note t2 = refs_only_over_HTTP [of demo_ext "''http://registry.example''" "\<lparr>pk = 7\<rparr>" demo_ref m
       "\<lparr>URL_Scheme = ''http'', URL_Host = ''registry.example'', URL_Path = [],
                                 URL_RawQuery = []\<rparr>"]
  from t1 ne m have a: "ResolveHeadRef demo_ext (Some \<lparr>pk = 7\<rparr>) demo_ref ''QmPeer''
     = (Some (Errorf ''dataset name resolution currently only works over HTTP''), demo_ref, [])"
    and b: "RemoveDataset demo_ext (Some \<lparr>pk = 7\<rparr>) demo_ref ''QmPeer''
     = (Some (Errorf ''dataset remove requests currently only work over HTTP''), [])"
    by auto
  from t2 m have c: "\<exists>q. snd (snd (ResolveHeadRef demo_ext (Some \<lparr>pk = 7\<rparr>) demo_ref ''http://registry.example''))
           = [HTTPDo ''GET'' (''http://registry.example/remote/refs?'' @ q)]"
    and d: "\<exists>q logs. snd (RemoveDataset demo_ext (Some \<lparr>pk = 7\<rparr>) demo_ref ''http://registry.example'')
           = HTTPDo ''DELETE'' (''http://registry.example/remote/refs?'' @ q) # logs"
    by (auto simp: demo_addr1 demo_fields us)
  from a b c d show ?thesis by blast
qed

subsection \<open>No client, no logbook\<close>

lemma nil_client:
  "PullLogs x None lref addr = (Some ErrNoRemoteClient, [])"
  "PushLogs x None lref addr = (Some ErrNoRemoteClient, [])"
  "RemoveLogs x None lref addr = (Some ErrNoRemoteClient, [])"
  "PushDataset x None ref addr = (Some ErrNoRemoteClient, [])"
  "PullDataset x None ref addr = (Some ErrNoRemoteClient, ref, [])"
  "RemoveDataset x None ref addr = (Some ErrNoRemoteClient, [])"
  "ResolveHeadRef x None ref addr = (Some ErrNoRemoteClient, ref, [])"
  by (simp_all add: PullLogs_def PushLogs_def RemoveLogs_def PushDataset_def PullDataset_def
        RemoveDataset_def ResolveHeadRef_def)

lemma remove_revisions_no_logbook:
  assumes "Rev_Gen (Revision p) \<noteq> AllGenerations L" "1 \<le> Rev_Gen (Revision p)"
    and "DatasetLog L w ref (wrap64 (Rev_Gen (Revision p) + 1)) 0 False = Inr lg"
    and "Rev_Gen (Revision p) < int (length lg)"
    and "ModifyDatasetRef L w ref
           \<lparr>Peername = Ref_Username (Item_Ref (lg ! nat (Rev_Gen (Revision p)))),
            ProfileID = ProfileID ref,
            Name = Ref_Name (Item_Ref (lg ! nat (Rev_Gen (Revision p)))),
            Path = Ref_Path (Item_Ref (lg ! nat (Rev_Gen (Revision p)))),
            FSIPath = [], Published = Item_Published (lg ! nat (Rev_Gen (Revision p))),
            Dataset = None\<rparr> False = (None, w1)"
    and "WriteVersionDelete L (inst rq) w1 (ConvertToDsref L ref) (Rev_Gen (Revision p)) = (Some e, w2)"
    and "ident e = NoLogbook"
  shows "remove_revisions L rq p ref res w = (None, res\<lparr>NumDeleted := Rev_Gen (Revision p)\<rparr>, w2)"
  using assms unfolding remove_revisions_def by (simp add: Let_def)

text \<open>
  C8.  Each of the seven request operations of the client, called on a nil client, returns
  \<^verbatim>\<open>ErrNoRemoteClient\<close>, sends nothing and leaves the reference as it was (the accessor
  \<^verbatim>\<open>CoreAPI\<close>, which makes no request and returns no error, is not one of them).  And
  \<^verbatim>\<open>Remove\<close>, once it has moved the reference back by \<^verbatim>\<open>p.Revision.Gen\<close> revisions,
  returns nil when writing the version-delete operation fails with \<^verbatim>\<open>ErrNoLogbook\<close>: the
  hypotheses of the last conjunct are the conditions under which the code reaches
  \<^verbatim>\<open>WriteVersionDelete\<close>.
\<close>

theorem no_client_no_logbook:
  "PullLogs x None lref addr = (Some ErrNoRemoteClient, [])
   \<and> PushLogs x None lref addr = (Some ErrNoRemoteClient, [])
   \<and> RemoveLogs x None lref addr = (Some ErrNoRemoteClient, [])
   \<and> PushDataset x None ref addr = (Some ErrNoRemoteClient, [])
   \<and> PullDataset x None ref addr = (Some ErrNoRemoteClient, ref, [])
   \<and> RemoveDataset x None ref addr = (Some ErrNoRemoteClient, [])
   \<and> ResolveHeadRef x None ref addr = (Some ErrNoRemoteClient, ref, [])
   \<and> (cli rq = None \<and> Rev_Field (Revision p) = ''ds''
        \<and> ParseDatasetRef L (RemoveParams_Ref p) = Inr ref0
        \<and> CanonicalizeDatasetRef L w ref0 = (None, dref)
        \<and> \<not> (FSIPath dref = [] \<and> Unlink p) \<and> \<not> (FSIPath dref = [] \<and> DeleteFSIFiles p)
        \<and> remove_linked L rq p dref False (res\<lparr>RemoveResponse_Ref := Ref_String L dref\<rparr>) w
            = (None, res2, w0)
        \<and> Rev_Gen (Revision p) \<noteq> AllGenerations L \<and> 1 \<le> Rev_Gen (Revision p)
        \<and> DatasetLog L w0 dref (wrap64 (Rev_Gen (Revision p) + 1)) 0 False = Inr lg
        \<and> Rev_Gen (Revision p) < int (length lg)
        \<and> ModifyDatasetRef L w0 dref
             \<lparr>Peername = Ref_Username (Item_Ref (lg ! nat (Rev_Gen (Revision p)))),
              ProfileID = ProfileID dref,
              Name = Ref_Name (Item_Ref (lg ! nat (Rev_Gen (Revision p)))),
              Path = Ref_Path (Item_Ref (lg ! nat (Rev_Gen (Revision p)))),
              FSIPath = [], Published = Item_Published (lg ! nat (Rev_Gen (Revision p))),
              Dataset = None\<rparr> False = (None, w1)
        \<and> WriteVersionDelete L (inst rq) w1 (ConvertToDsref L dref) (Rev_Gen (Revision p))
            = (Some e, w2)
        \<and> ident e = NoLogbook
      \<longrightarrow> Remove L rq p res w = (None, res2\<lparr>NumDeleted := Rev_Gen (Revision p)\<rparr>, w2))"
proof (intro conjI impI)
  assume a: "cli rq = None \<and> Rev_Field (Revision p) = ''ds''
        \<and> ParseDatasetRef L (RemoveParams_Ref p) = Inr ref0
        \<and> CanonicalizeDatasetRef L w ref0 = (None, dref)
        \<and> \<not> (FSIPath dref = [] \<and> Unlink p) \<and> \<not> (FSIPath dref = [] \<and> DeleteFSIFiles p)
        \<and> remove_linked L rq p dref False (res\<lparr>RemoveResponse_Ref := Ref_String L dref\<rparr>) w
            = (None, res2, w0)
        \<and> Rev_Gen (Revision p) \<noteq> AllGenerations L \<and> 1 \<le> Rev_Gen (Revision p)
        \<and> DatasetLog L w0 dref (wrap64 (Rev_Gen (Revision p) + 1)) 0 False = Inr lg
        \<and> Rev_Gen (Revision p) < int (length lg)
        \<and> ModifyDatasetRef L w0 dref
             \<lparr>Peername = Ref_Username (Item_Ref (lg ! nat (Rev_Gen (Revision p)))),
              ProfileID = ProfileID dref,
              Name = Ref_Name (Item_Ref (lg ! nat (Rev_Gen (Revision p)))),
              Path = Ref_Path (Item_Ref (lg ! nat (Rev_Gen (Revision p)))),
              FSIPath = [], Published = Item_Published (lg ! nat (Rev_Gen (Revision p))),
              Dataset = None\<rparr> False = (None, w1)
        \<and> WriteVersionDelete L (inst rq) w1 (ConvertToDsref L dref) (Rev_Gen (Revision p))
            = (Some e, w2)
        \<and> ident e = NoLogbook"
  have rr: "remove_revisions L rq p dref res2 w0 = (None, res2\<lparr>NumDeleted := Rev_Gen (Revision p)\<rparr>, w2)"
    using a by (intro remove_revisions_no_logbook [where e = e and lg = lg and ?w1.0 = w1]) simp_all
  from a have 1: "cli rq = None" "Rev_Field (Revision p) = ''ds''"
        "ParseDatasetRef L (RemoveParams_Ref p) = Inr ref0"
        "CanonicalizeDatasetRef L w ref0 = (None, dref)"
        "\<not> (FSIPath dref = [] \<and> Unlink p)" "\<not> (FSIPath dref = [] \<and> DeleteFSIFiles p)"
        "remove_linked L rq p dref False (res\<lparr>RemoveResponse_Ref := Ref_String L dref\<rparr>) w
            = (None, res2, w0)"
    by simp_all
  show "Remove L rq p res w = (None, res2\<lparr>NumDeleted := Rev_Gen (Revision p)\<rparr>, w2)"
    unfolding Remove_def using 1 rr by (simp add: Let_def)
qed (rule nil_client)+


lemma demo_lib_fields:
  "ParseDatasetRef demo_lib ''b5/world_bank_population'' = Inr (demo_ref\<lparr>Path := []\<rparr>)"
  "CanonicalizeDatasetRef demo_lib = (\<lambda>w ref. (None, ref\<lparr>Path := ''/ipfs/QmV3''\<rparr>))"
  "Ref_String demo_lib = (\<lambda>ref. Peername ref @ ''/'' @ Name ref @ ''@'' @ Path ref)"
  "AllGenerations demo_lib = - 1"
  "DatasetLog demo_lib = (\<lambda>w ref limit offset b.
                      Inr (map (\<lambda>path. \<lparr>Item_Ref = \<lparr>Ref_Username = Peername ref,
                                                       Ref_Name = Name ref, Ref_Path = path\<rparr>,
                                           Item_Published = False\<rparr>)
                               [''/ipfs/QmV3'', ''/ipfs/QmV2'', ''/ipfs/QmV1'']))"
  "ModifyDatasetRef demo_lib = (\<lambda>w ref replace isRename. (None, Path replace # w))"
  "WriteVersionDelete demo_lib = (\<lambda>i w ref n. (Some (Err NoLogbook ''logbook: does not exist''), w))"
  "RemoteClient demo_lib = (\<lambda>i. None)"
  "Registry_Location demo_lib = (\<lambda>i. Some ''http://registry.example'')"
  "Client_AddDataset demo_lib = (\<lambda>c ref a. (None, ref\<lparr>Path := ''/ipfs/QmV3''\<rparr>))"
  "Checkout demo_lib = (\<lambda>i ref dir. None)"
  "ConvertToDsref demo_lib = (\<lambda>ref. \<lparr>Ref_Username = Peername ref, Ref_Name = Name ref,
                                 Ref_Path = Path ref\<rparr>)"
  by (simp_all add: demo_lib_def)

text \<open>
  On the repository without a logbook, removing one revision of three succeeds and moves
  the reference to the second version.
\<close>

theorem no_client_no_logbook_witness:
  "PullLogs demo_ext None demo_dsref ''http://registry.example'' = (Some ErrNoRemoteClient, [])
   \<and> Remove demo_lib \<lparr>cli = None, inst = None\<rparr> demo_remove demo_response []
     = (None,
        \<lparr>RemoveResponse_Ref = ''b5/world_bank_population@/ipfs/QmV3'', NumDeleted = 1,
         Unlinked = False, DeletedFSIFiles = False\<rparr>,
        [''/ipfs/QmV2''])"
proof -
  let ?dref = "demo_ref\<lparr>Path := ''/ipfs/QmV3''\<rparr>"
  let ?res1 = "demo_response\<lparr>RemoveResponse_Ref := ''b5/world_bank_population@/ipfs/QmV3''\<rparr>"
  let ?lg = "map (\<lambda>path. \<lparr>Item_Ref = \<lparr>Ref_Username = ''b5'',
                                           Ref_Name = ''world_bank_population'', Ref_Path = path\<rparr>,
                                Item_Published = False\<rparr>)
                 [''/ipfs/QmV3'', ''/ipfs/QmV2'', ''/ipfs/QmV1'']"
  have rl: "remove_linked demo_lib \<lparr>cli = None, inst = None\<rparr> demo_remove ?dref False
              (demo_response\<lparr>RemoveResponse_Ref := Ref_String demo_lib ?dref\<rparr>) []
            = (None, ?res1, [])"
    by (simp add: remove_linked_def demo_ref_def demo_lib_fields)
  have "Remove demo_lib \<lparr>cli = None, inst = None\<rparr> demo_remove demo_response []
        = (None, ?res1\<lparr>NumDeleted := Rev_Gen (Revision demo_remove)\<rparr>, [''/ipfs/QmV2''])"
    using no_client_no_logbook [of demo_ext demo_dsref "[]" demo_ref "\<lparr>cli = None, inst = None\<rparr>" demo_remove demo_lib
        "demo_ref\<lparr>Path := []\<rparr>" "[]" ?dref demo_response ?res1 "[]" ?lg "[''/ipfs/QmV2'']"
        "Err NoLogbook ''logbook: does not exist''" "[''/ipfs/QmV2'']"] rl
    by (simp add: demo_lib_fields demo_remove_def demo_ref_def)
  then show ?thesis by (simp add: demo_remove_def demo_response_def PullLogs_def)
qed

subsection \<open>The race\<close>

lemma run_snoc: "run l ref (es @ [e]) = step (length l) (run l ref es) e"
  by (simp add: run_def)

lemma run_append: "run l ref (es @ es') = foldl (step (length l)) (run l ref es) es'"
  by (simp add: run_def)

lemma race_inv_start: "race_inv (length l) ref (start l ref)"
  by (simp add: race_inv_def start_def)

lemma race_inv_pull:
  "race_inv n ref0 s \<Longrightarrow> race_inv n ref0 (finish s RegistryTask res)"
  by (simp add: race_inv_def finish_def)

lemma race_inv_fetch:
  assumes "race_inv n ref0 s" "P2PTask \<in> running s"
  shows "race_inv n ref0 (write_ref (finish s P2PTask (p2p_response e ref)) ref)"
proof (cases "add_success s")
  case True
  with assms show ?thesis by (simp add: race_inv_def finish_def write_ref_def)
next
  case False
  have w: "\<exists>res. (\<lparr>Ref = ref, Error = e\<rparr> = res \<or> (P2PTask, res) \<in> set (received s))
                \<and> ref = Ref res"
    by (rule exI [of _ "\<lparr>Ref = ref, Error = e\<rparr>"]) simp
  from False assms w show ?thesis
    by (simp add: race_inv_def finish_def write_ref_def p2p_response_def)
qed

lemma race_inv_receive:
  assumes "race_inv n ref0 s" "receiving s" "blocked s t = Some res"
  shows "race_inv n ref0 (receive n s t res)"
proof -
  from assms have ns: "\<not> add_success s" by (auto simp: race_inv_def)
  with assms have f: "\<not> cancelled s" "\<forall>x \<in> set (received s). Error (snd x) \<noteq> None"
    "add_i s = length (received s)" "add_i s < n"
    by (auto simp: race_inv_def)
  from assms(1) ns have r: "add_ref s = ref0
      \<or> (\<exists>res'. (blocked s P2PTask = Some res' \<or> (P2PTask, res') \<in> set (received s))
                \<and> add_ref s = Ref res')"
    by (simp add: race_inv_def)
  show ?thesis
  proof (cases "Error res")
    case None
    then show ?thesis using ns f by (simp add: race_inv_def receive_def Let_def)
  next
    case (Some e)
    have "add_ref s = ref0
      \<or> (\<exists>res'. ((P2PTask \<noteq> t \<and> blocked s P2PTask = Some res')
                   \<or> (P2PTask, res') \<in> set (received s) \<or> (P2PTask, res') = (t, res))
                \<and> add_ref s = Ref res')"
      using r assms(3) by (cases "t = P2PTask") auto
    then show ?thesis using Some ns f by (simp add: race_inv_def receive_def Let_def) blast
  qed
qed

lemma race_inv_step:
  assumes "race_inv n ref0 s"
  shows "race_inv n ref0 (step n s e)"
proof (cases e)
  case (PullReturns err ref pin)
  then show ?thesis using assms by (simp add: race_inv_pull)
next
  case (FetchReturns err ref)
  then show ?thesis using assms by (simp add: race_inv_fetch)
next
  case (Receive t)
  show ?thesis
  proof (cases "receiving s")
    case True
    show ?thesis
    proof (cases "blocked s t")
      case None
      with True Receive assms show ?thesis by simp
    next
      case (Some res)
      with True Receive race_inv_receive [OF assms True Some] show ?thesis by simp
    qed
  next
    case False
    with Receive assms show ?thesis by simp
  qed
qed

lemma race_inv_run: "race_inv (length l) ref (run l ref es)"
proof (induction es rule: rev_induct)
  case Nil
  then show ?case by (simp add: run_def race_inv_start)
next
  case (snoc e es)
  then show ?case by (simp add: run_snoc race_inv_step)
qed







lemma AddDataset_success:
  assumes "(if Complete a ref then (None, ref) else ResolveDatasetRef a node rc addr ref) = (None, ref1)"
    and "add_success (run (launch node rc addr) ref1 es)"
  shows "AddDataset a node rc addr ref r es
         = (case store_ref a r (add_ref (run (launch node rc addr) ref1 es)) of
              (e, ref2, r') \<Rightarrow> Some \<lparr>add_error = e, added_ref = ref2, added_repo = r',
                                     started = launch node rc addr\<rparr>)"
proof -
  have nr: "\<not> receiving (run (launch node rc addr) ref1 es)"
    using race_inv_run [of "launch node rc addr" ref1 es] assms(2) by (simp add: race_inv_def)
  have ne: "launch node rc addr \<noteq> []"
    using race_inv_run [of "launch node rc addr" ref1 es] assms(2) by (auto simp: race_inv_def)
  show ?thesis
    unfolding AddDataset_def assms(1) using nr ne assms(2) by (simp add: Let_def)
qed


lemma demo_collab_fields:
  "Complete demo_collab (demo_v ''/ipfs/QmV2'')"
  "\<not> Complete demo_collab (demo_v [])"
  "ResolveDatasetRef demo_collab = (\<lambda>node rc a ref. (Some (Err NotFound ''repo: not found''), ref))"
  "GetRef demo_collab = (\<lambda>r q. case find (\<lambda>x. Peername x = Peername q \<and> Name x = Name q) r of
                         None \<Rightarrow> Inl (Err NotFound ''repo: not found'')
                       | Some x \<Rightarrow> Inr x)"
  "PutRef demo_collab = (\<lambda>r ref. (None, ref # filter (\<lambda>x. \<not> (Peername x = Peername ref \<and> Name x = Name ref)) r))"
  "LoadDataset demo_collab = (\<lambda>r path. if path = ''/ipfs/QmV1'' then (None, Some 10)
                               else if path = ''/ipfs/QmV2'' then (None, Some 20)
                               else (Some (Err Anon ''not found''), None))"
  "MoreRecent demo_collab = (\<lambda>cur prev. case (Dataset cur, Dataset prev) of
                                  (Some c, Some p) \<Rightarrow> p < c
                                | _ \<Rightarrow> False)"
  by (simp_all add: demo_collab_def demo_v_def)

lemma demo_launch:
  "launch \<lparr>Online = True\<rparr> (Some \<lparr>pk = 7\<rparr>) ''http://registry.example'' = [RegistryTask, P2PTask]"
  "launch \<lparr>Online = False\<rparr> None ''http://registry.example'' = []"
  by (simp_all add: launch_def)

lemma demo_race:
  "run [RegistryTask, P2PTask] (demo_v ''/ipfs/QmV2'')
       [FetchReturns None (demo_v ''/ipfs/QmV2''), Receive P2PTask]
   = \<lparr>running = {RegistryTask}, blocked = Map.empty(P2PTask := None),
      observed = [P2PTask \<mapsto> False], cancelled = True,
      received = [(P2PTask, \<lparr>Ref = demo_v ''/ipfs/QmV2'', Error = None\<rparr>)],
      add_i = 0, add_err = None, add_success = True, add_ref = demo_v ''/ipfs/QmV2'',
      receiving = False\<rparr>"
  by (simp add: run_def start_def finish_def receive_def write_ref_def p2p_response_def
        insert_commute)


subsection \<open>All tasks fail\<close>

lemma AddDataset_all_failed:
  assumes "(if Complete a ref then (None, ref) else ResolveDatasetRef a node rc addr ref) = (None, ref1)"
    and "launch node rc addr \<noteq> []"
    and "\<not> add_success (run (launch node rc addr) ref1 es)"
    and "length (received (run (launch node rc addr) ref1 es)) = length (launch node rc addr)"
  shows "\<exists>t res e. last (received (run (launch node rc addr) ref1 es)) = (t, res)
            \<and> Error res = Some e
            \<and> AddDataset a node rc addr ref r es
                = Some \<lparr>add_error = Some (Errorf (''add failed: '' @ Error_string e)),
                        added_ref = add_ref (run (launch node rc addr) ref1 es),
                        added_repo = r, started = launch node rc addr\<rparr>"
proof -
  let ?s = "run (launch node rc addr) ref1 es"
  have inv: "race_inv (length (launch node rc addr)) ref1 ?s" by (rule race_inv_run)
  from assms(2,4) have ne: "received ?s \<noteq> []" by auto
  from inv assms(3) have f: "\<forall>x \<in> set (received ?s). Error (snd x) \<noteq> None"
    "add_i ?s = length (received ?s)"
    "add_err ?s = (if received ?s = [] then None else Error (snd (last (received ?s))))"
    "receiving ?s = (add_i ?s < length (launch node rc addr))"
    by (simp_all add: race_inv_def)
  obtain t res where l: "last (received ?s) = (t, res)" by (cases "last (received ?s)") auto
  from ne have "last (received ?s) \<in> set (received ?s)" by simp
  with f(1) l obtain e where e: "Error res = Some e" by fastforce
  from f(3) ne l e have err: "add_err ?s = Some e" by simp
  from f(2,4) assms(4) have nr: "\<not> receiving ?s" by simp
  have "AddDataset a node rc addr ref r es
                = Some \<lparr>add_error = Some (Errorf (''add failed: '' @ Error_string e)),
                        added_ref = add_ref (run (launch node rc addr) ref1 es),
                        added_repo = r, started = launch node rc addr\<rparr>"
    unfolding AddDataset_def assms(1) using assms(2,3) nr err by (simp add: Let_def)
  with l e show ?thesis by blast
qed

text \<open>
  C4, amended.  When all started tasks have reported and none succeeded, \<^verbatim>\<open>AddDataset\<close>
  fails with \<^verbatim>\<open>add failed: \<close> followed by the message of the last response received;
  the messages of the earlier ones are not in it.  The store is untouched, and the
  caller's reference is left as it is at the end of the race, with what the peer-network
  task wrote into it.  When a task succeeds, what
  \<^verbatim>\<open>AddDataset\<close> returns depends on the adopted reference only, not on the errors of the
  tasks that failed before.
\<close>

theorem add_failed_last_error:
  assumes "(if Complete a ref then (None, ref) else ResolveDatasetRef a node rc addr ref) = (None, ref1)"
    and "launch node rc addr \<noteq> []"
  shows "(\<not> add_success (run (launch node rc addr) ref1 es)
          \<and> length (received (run (launch node rc addr) ref1 es)) = length (launch node rc addr)
          \<longrightarrow> (\<forall>x \<in> set (received (run (launch node rc addr) ref1 es)). Error (snd x) \<noteq> None)
              \<and> (\<exists>t res e. last (received (run (launch node rc addr) ref1 es)) = (t, res)
                    \<and> Error res = Some e
                    \<and> AddDataset a node rc addr ref r es
                        = Some \<lparr>add_error = Some (Errorf (''add failed: '' @ Error_string e)),
                                added_ref = add_ref (run (launch node rc addr) ref1 es),
                                added_repo = r, started = launch node rc addr\<rparr>))
       \<and> (add_success (run (launch node rc addr) ref1 es)
          \<and> add_success (run (launch node rc addr) ref1 es')
          \<and> add_ref (run (launch node rc addr) ref1 es) = add_ref (run (launch node rc addr) ref1 es')
          \<longrightarrow> AddDataset a node rc addr ref r es = AddDataset a node rc addr ref r es')"
proof (intro conjI impI)
  assume h: "\<not> add_success (run (launch node rc addr) ref1 es)
          \<and> length (received (run (launch node rc addr) ref1 es)) = length (launch node rc addr)"
  then show "\<forall>x \<in> set (received (run (launch node rc addr) ref1 es)). Error (snd x) \<noteq> None"
    using race_inv_run [of "launch node rc addr" ref1 es] by (simp add: race_inv_def)
  from h show "\<exists>t res e. last (received (run (launch node rc addr) ref1 es)) = (t, res)
                    \<and> Error res = Some e
                    \<and> AddDataset a node rc addr ref r es
                        = Some \<lparr>add_error = Some (Errorf (''add failed: '' @ Error_string e)),
                                added_ref = add_ref (run (launch node rc addr) ref1 es),
                                added_repo = r, started = launch node rc addr\<rparr>"
    using AddDataset_all_failed [OF assms] by blast
next
  assume "add_success (run (launch node rc addr) ref1 es)
          \<and> add_success (run (launch node rc addr) ref1 es')
          \<and> add_ref (run (launch node rc addr) ref1 es) = add_ref (run (launch node rc addr) ref1 es')"
  then show "AddDataset a node rc addr ref r es = AddDataset a node rc addr ref r es'"
    using AddDataset_success [OF assms(1)] by simp
qed

lemma demo_race_fail:
  "received (run [RegistryTask, P2PTask] (demo_v ''/ipfs/QmV2'')
       [PullReturns (Some (Errorf ''x'')) (demo_v ''/ipfs/QmV2'') None, Receive RegistryTask,
        FetchReturns (Some (Errorf ''y'')) (demo_v ''/ipfs/QmPartial''), Receive P2PTask])
   = [(RegistryTask, \<lparr>Ref = demo_v ''/ipfs/QmV2'', Error = Some (Errorf ''x'')\<rparr>),
      (P2PTask, \<lparr>Ref = demo_v ''/ipfs/QmPartial'', Error = Some (Errorf ''y'')\<rparr>)]"
  "add_err (run [RegistryTask, P2PTask] (demo_v ''/ipfs/QmV2'')
       [PullReturns (Some (Errorf ''x'')) (demo_v ''/ipfs/QmV2'') None, Receive RegistryTask,
        FetchReturns (Some (Errorf ''y'')) (demo_v ''/ipfs/QmPartial''), Receive P2PTask])
   = Some (Errorf ''y'')"
  "\<not> add_success (run [RegistryTask, P2PTask] (demo_v ''/ipfs/QmV2'')
       [PullReturns (Some (Errorf ''x'')) (demo_v ''/ipfs/QmV2'') None, Receive RegistryTask,
        FetchReturns (Some (Errorf ''y'')) (demo_v ''/ipfs/QmPartial''), Receive P2PTask])"
  "\<not> receiving (run [RegistryTask, P2PTask] (demo_v ''/ipfs/QmV2'')
       [PullReturns (Some (Errorf ''x'')) (demo_v ''/ipfs/QmV2'') None, Receive RegistryTask,
        FetchReturns (Some (Errorf ''y'')) (demo_v ''/ipfs/QmPartial''), Receive P2PTask])"
  "add_ref (run [RegistryTask, P2PTask] (demo_v ''/ipfs/QmV2'')
       [PullReturns (Some (Errorf ''x'')) (demo_v ''/ipfs/QmV2'') None, Receive RegistryTask,
        FetchReturns (Some (Errorf ''y'')) (demo_v ''/ipfs/QmPartial''), Receive P2PTask])
   = demo_v ''/ipfs/QmPartial''"
  by (simp_all add: run_def start_def finish_def receive_def write_ref_def p2p_response_def)

text \<open>
  C4 as stated fails: the registry task fails with \<^verbatim>\<open>x\<close>, then the peer-network task
  fails with \<^verbatim>\<open>y\<close>, having written a path into the caller's reference; the error
  returned is \<^verbatim>\<open>add failed: y\<close> and does not contain the first task's error.
\<close>

theorem add_failed_combined_counterexample:
  "AddDataset demo_collab \<lparr>Online = True\<rparr> (Some \<lparr>pk = 7\<rparr>) ''http://registry.example''
       (demo_v ''/ipfs/QmV2'') []
       [PullReturns (Some (Errorf ''x'')) (demo_v ''/ipfs/QmV2'') None, Receive RegistryTask,
        FetchReturns (Some (Errorf ''y'')) (demo_v ''/ipfs/QmPartial''), Receive P2PTask]
   = Some \<lparr>add_error = Some (Errorf ''add failed: y''),
           added_ref = demo_v ''/ipfs/QmPartial'',
           added_repo = [], started = [RegistryTask, P2PTask]\<rparr>
   \<and> \<not> Contains ''add failed: y'' ''x''"
  by (simp add: AddDataset_def demo_collab_fields demo_launch demo_race_fail Let_def HasPrefix_def)
     (simp add: Errorf_def)

text \<open>
  Both cases of the amended claim on the test double: two failures, and a success after
  a failure compared with the success alone.
\<close>

theorem add_failed_last_error_witness:
  "AddDataset demo_collab \<lparr>Online = True\<rparr> (Some \<lparr>pk = 7\<rparr>) ''http://registry.example''
       (demo_v ''/ipfs/QmV2'') []
       [PullReturns (Some (Errorf ''x'')) (demo_v ''/ipfs/QmV2'') None, Receive RegistryTask,
        FetchReturns (Some (Errorf ''y'')) (demo_v ''/ipfs/QmPartial''), Receive P2PTask]
   = Some \<lparr>add_error = Some (Errorf ''add failed: y''),
           added_ref = demo_v ''/ipfs/QmPartial'',
           added_repo = [], started = [RegistryTask, P2PTask]\<rparr>
   \<and> AddDataset demo_collab \<lparr>Online = True\<rparr> (Some \<lparr>pk = 7\<rparr>) ''http://registry.example''
       (demo_v ''/ipfs/QmV2'') []
       [FetchReturns None (demo_v ''/ipfs/QmV2''), Receive P2PTask]
     = AddDataset demo_collab \<lparr>Online = True\<rparr> (Some \<lparr>pk = 7\<rparr>) ''http://registry.example''
       (demo_v ''/ipfs/QmV2'') []
       [PullReturns (Some (Errorf ''x'')) (demo_v ''/ipfs/QmV2'') None, Receive RegistryTask,
        FetchReturns None (demo_v ''/ipfs/QmV2''), Receive P2PTask]"
proof -
  let ?es = "[PullReturns (Some (Errorf ''x'')) (demo_v ''/ipfs/QmV2'') None, Receive RegistryTask,
        FetchReturns (Some (Errorf ''y'')) (demo_v ''/ipfs/QmPartial''), Receive P2PTask]"
  let ?es1 = "[FetchReturns None (demo_v ''/ipfs/QmV2''), Receive P2PTask]"
  let ?es2 = "[PullReturns (Some (Errorf ''x'')) (demo_v ''/ipfs/QmV2'') None, Receive RegistryTask,
        FetchReturns None (demo_v ''/ipfs/QmV2''), Receive P2PTask]"
  have r: "(if Complete demo_collab (demo_v ''/ipfs/QmV2'') then (None, demo_v ''/ipfs/QmV2'')
            else ResolveDatasetRef demo_collab \<lparr>Online = True\<rparr> (Some \<lparr>pk = 7\<rparr>)
                   ''http://registry.example'' (demo_v ''/ipfs/QmV2''))
           = (None, demo_v ''/ipfs/QmV2'')"
    by (simp add: demo_collab_fields)
  have l: "launch \<lparr>Online = True\<rparr> (Some \<lparr>pk = 7\<rparr>) ''http://registry.example'' \<noteq> []"
    by (simp add: demo_launch)
  have s2: "add_success (run [RegistryTask, P2PTask] (demo_v ''/ipfs/QmV2'') ?es2)
            \<and> add_ref (run [RegistryTask, P2PTask] (demo_v ''/ipfs/QmV2'') ?es2) = demo_v ''/ipfs/QmV2''"
    by (simp add: run_def start_def finish_def receive_def write_ref_def p2p_response_def)
  note t1 = add_failed_last_error [OF r l, of ?es "[]" ?es]
  note t2 = add_failed_last_error [OF r l, of ?es1 "[]" ?es2]
  from t1 have a: "AddDataset demo_collab \<lparr>Online = True\<rparr> (Some \<lparr>pk = 7\<rparr>) ''http://registry.example''
       (demo_v ''/ipfs/QmV2'') [] ?es
   = Some \<lparr>add_error = Some (Errorf ''add failed: y''),
           added_ref = demo_v ''/ipfs/QmPartial'',
           added_repo = [], started = [RegistryTask, P2PTask]\<rparr>"
    by (simp add: demo_launch demo_race_fail) (simp add: Errorf_def)
  from t2 s2 have b: "AddDataset demo_collab \<lparr>Online = True\<rparr> (Some \<lparr>pk = 7\<rparr>) ''http://registry.example''
       (demo_v ''/ipfs/QmV2'') [] ?es1
     = AddDataset demo_collab \<lparr>Online = True\<rparr> (Some \<lparr>pk = 7\<rparr>) ''http://registry.example''
       (demo_v ''/ipfs/QmV2'') [] ?es2"
    by (simp add: demo_launch demo_race)
  from a b show ?thesis by blast
qed

subsection \<open>No source, and storing the reference\<close>



lemma store_ref_new:
  assumes "GetRef a r \<lparr>Peername = Peername ref, ProfileID = [], Name = Name ref, Path = [],
                       FSIPath = [], Published = False, Dataset = None\<rparr> = Inl e"
    "ident e = NotFound" "PutRef a r ref = (None, r')"
  shows "store_ref a r ref = (None, ref, r')"
  using assms by (simp add: store_ref_def)

lemma store_ref_known:
  assumes "GetRef a r \<lparr>Peername = Peername ref, ProfileID = [], Name = Name ref, Path = [],
                       FSIPath = [], Published = False, Dataset = None\<rparr> = Inr prev"
    "LoadDataset a r (Path prev) = (None, pds)" "LoadDataset a r (Path ref) = (None, ds)"
  shows "store_ref a r ref =
           (fst (PutRef a r (if MoreRecent a (ref\<lparr>Dataset := ds\<rparr>) (prev\<lparr>Dataset := pds\<rparr>)
                             then ref\<lparr>Dataset := ds\<rparr> else prev\<lparr>Dataset := pds\<rparr>)),
            ref\<lparr>Dataset := ds\<rparr>,
            snd (PutRef a r (if MoreRecent a (ref\<lparr>Dataset := ds\<rparr>) (prev\<lparr>Dataset := pds\<rparr>)
                             then ref\<lparr>Dataset := ds\<rparr> else prev\<lparr>Dataset := pds\<rparr>)))"
  using assms by (simp add: store_ref_def ReplaceRefIfMoreRecent_def split: prod.splits)

text \<open>
  C6.  After a success of the race, with \<open>fetched\<close> the adopted reference.  When the
  store has no reference of that peername and name and \<^verbatim>\<open>PutRef\<close> succeeds, the store is
  the one \<^verbatim>\<open>PutRef\<close> leaves for the fetched reference as it is.  When it has one and
  both datasets load, the store is the one \<^verbatim>\<open>PutRef\<close> leaves for the more recent of the
  two references, each with its dataset loaded.
\<close>

theorem stored_or_more_recent:
  assumes "(if Complete a ref then (None, ref) else ResolveDatasetRef a node rc addr ref) = (None, ref1)"
    and "add_success (run (launch node rc addr) ref1 es)"
    and "fetched = add_ref (run (launch node rc addr) ref1 es)"
    and "q = \<lparr>Peername = Peername fetched, ProfileID = [], Name = Name fetched, Path = [],
              FSIPath = [], Published = False, Dataset = None\<rparr>"
  shows "(GetRef a r q = Inl e \<and> ident e = NotFound \<and> PutRef a r fetched = (None, r') \<longrightarrow>
            AddDataset a node rc addr ref r es
              = Some \<lparr>add_error = None, added_ref = fetched, added_repo = r',
                      started = launch node rc addr\<rparr>)
       \<and> (GetRef a r q = Inr prev \<and> LoadDataset a r (Path prev) = (None, pds)
            \<and> LoadDataset a r (Path fetched) = (None, ds) \<longrightarrow>
            AddDataset a node rc addr ref r es
              = Some \<lparr>add_error =
                        fst (PutRef a r (if MoreRecent a (fetched\<lparr>Dataset := ds\<rparr>) (prev\<lparr>Dataset := pds\<rparr>)
                                         then fetched\<lparr>Dataset := ds\<rparr> else prev\<lparr>Dataset := pds\<rparr>)),
                      added_ref = fetched\<lparr>Dataset := ds\<rparr>,
                      added_repo =
                        snd (PutRef a r (if MoreRecent a (fetched\<lparr>Dataset := ds\<rparr>) (prev\<lparr>Dataset := pds\<rparr>)
                                         then fetched\<lparr>Dataset := ds\<rparr> else prev\<lparr>Dataset := pds\<rparr>)),
                      started = launch node rc addr\<rparr>)"
proof (intro conjI impI)
  assume "GetRef a r q = Inl e \<and> ident e = NotFound \<and> PutRef a r fetched = (None, r')"
  then have "store_ref a r fetched = (None, fetched, r')"
    using assms(4) by (intro store_ref_new [of a r fetched e r']) simp_all
  then show "AddDataset a node rc addr ref r es
              = Some \<lparr>add_error = None, added_ref = fetched, added_repo = r',
                      started = launch node rc addr\<rparr>"
    using AddDataset_success [OF assms(1,2), of r] assms(3) by simp
next
  assume "GetRef a r q = Inr prev \<and> LoadDataset a r (Path prev) = (None, pds)
            \<and> LoadDataset a r (Path fetched) = (None, ds)"
  then have "store_ref a r fetched =
           (fst (PutRef a r (if MoreRecent a (fetched\<lparr>Dataset := ds\<rparr>) (prev\<lparr>Dataset := pds\<rparr>)
                             then fetched\<lparr>Dataset := ds\<rparr> else prev\<lparr>Dataset := pds\<rparr>)),
            fetched\<lparr>Dataset := ds\<rparr>,
            snd (PutRef a r (if MoreRecent a (fetched\<lparr>Dataset := ds\<rparr>) (prev\<lparr>Dataset := pds\<rparr>)
                             then fetched\<lparr>Dataset := ds\<rparr> else prev\<lparr>Dataset := pds\<rparr>)))"
    using assms(4) by (intro store_ref_known) simp_all
  then show "AddDataset a node rc addr ref r es
              = Some \<lparr>add_error =
                        fst (PutRef a r (if MoreRecent a (fetched\<lparr>Dataset := ds\<rparr>) (prev\<lparr>Dataset := pds\<rparr>)
                                         then fetched\<lparr>Dataset := ds\<rparr> else prev\<lparr>Dataset := pds\<rparr>)),
                      added_ref = fetched\<lparr>Dataset := ds\<rparr>,
                      added_repo =
                        snd (PutRef a r (if MoreRecent a (fetched\<lparr>Dataset := ds\<rparr>) (prev\<lparr>Dataset := pds\<rparr>)
                                         then fetched\<lparr>Dataset := ds\<rparr> else prev\<lparr>Dataset := pds\<rparr>)),
                      started = launch node rc addr\<rparr>"
    using AddDataset_success [OF assms(1,2), of r] assms(3) by simp
qed

text \<open>
  On the test double: into an empty store, and over an older version.
\<close>

theorem stored_or_more_recent_witness:
  "AddDataset demo_collab \<lparr>Online = True\<rparr> (Some \<lparr>pk = 7\<rparr>) ''http://registry.example''
       (demo_v ''/ipfs/QmV2'') []
       [FetchReturns None (demo_v ''/ipfs/QmV2''), Receive P2PTask]
   = Some \<lparr>add_error = None, added_ref = demo_v ''/ipfs/QmV2'',
           added_repo = [demo_v ''/ipfs/QmV2''], started = [RegistryTask, P2PTask]\<rparr>
   \<and> AddDataset demo_collab \<lparr>Online = True\<rparr> (Some \<lparr>pk = 7\<rparr>) ''http://registry.example''
       (demo_v ''/ipfs/QmV2'') [demo_v ''/ipfs/QmV1'']
       [FetchReturns None (demo_v ''/ipfs/QmV2''), Receive P2PTask]
   = Some \<lparr>add_error = None, added_ref = (demo_v ''/ipfs/QmV2'')\<lparr>Dataset := Some 20\<rparr>,
           added_repo = [(demo_v ''/ipfs/QmV2'')\<lparr>Dataset := Some 20\<rparr>],
           started = [RegistryTask, P2PTask]\<rparr>"
proof -
  let ?es = "[FetchReturns None (demo_v ''/ipfs/QmV2''), Receive P2PTask]"
  let ?q = "\<lparr>Peername = Peername (demo_v ''/ipfs/QmV2''), ProfileID = [],
             Name = Name (demo_v ''/ipfs/QmV2''), Path = [],
             FSIPath = [], Published = False, Dataset = None :: nat option\<rparr>"
  have r: "(if Complete demo_collab (demo_v ''/ipfs/QmV2'') then (None, demo_v ''/ipfs/QmV2'')
            else ResolveDatasetRef demo_collab \<lparr>Online = True\<rparr> (Some \<lparr>pk = 7\<rparr>)
                   ''http://registry.example'' (demo_v ''/ipfs/QmV2''))
           = (None, demo_v ''/ipfs/QmV2'')"
    by (simp add: demo_collab_fields)
  have s: "add_success (run (launch \<lparr>Online = True\<rparr> (Some \<lparr>pk = 7\<rparr>) ''http://registry.example'')
                          (demo_v ''/ipfs/QmV2'') ?es)"
    by (simp add: demo_launch demo_race)
  have f: "demo_v ''/ipfs/QmV2'' = add_ref (run (launch \<lparr>Online = True\<rparr> (Some \<lparr>pk = 7\<rparr>) ''http://registry.example'')
                          (demo_v ''/ipfs/QmV2'') ?es)"
    by (simp add: demo_launch demo_race)
  have q: "?q = \<lparr>Peername = Peername (demo_v ''/ipfs/QmV2''), ProfileID = [],
             Name = Name (demo_v ''/ipfs/QmV2''), Path = [],
             FSIPath = [], Published = False, Dataset = None\<rparr>" by simp
  have g1: "GetRef demo_collab [] ?q = Inl (Err NotFound ''repo: not found'')"
    "PutRef demo_collab [] (demo_v ''/ipfs/QmV2'') = (None, [demo_v ''/ipfs/QmV2''])"
    by (simp_all add: demo_collab_fields)
  have g2: "GetRef demo_collab [demo_v ''/ipfs/QmV1''] ?q = Inr (demo_v ''/ipfs/QmV1'')"
    "LoadDataset demo_collab [demo_v ''/ipfs/QmV1''] (Path (demo_v ''/ipfs/QmV1'')) = (None, Some 10)"
    "LoadDataset demo_collab [demo_v ''/ipfs/QmV1''] (Path (demo_v ''/ipfs/QmV2'')) = (None, Some 20)"
    by (simp_all add: demo_collab_fields demo_v_def)
  have w: "PutRef demo_collab [demo_v ''/ipfs/QmV1'']
            (if MoreRecent demo_collab ((demo_v ''/ipfs/QmV2'')\<lparr>Dataset := Some 20\<rparr>)
                  ((demo_v ''/ipfs/QmV1'')\<lparr>Dataset := Some 10\<rparr>)
             then (demo_v ''/ipfs/QmV2'')\<lparr>Dataset := Some 20\<rparr>
             else (demo_v ''/ipfs/QmV1'')\<lparr>Dataset := Some 10\<rparr>)
           = (None, [(demo_v ''/ipfs/QmV2'')\<lparr>Dataset := Some 20\<rparr>])"
    by (simp add: demo_collab_fields demo_v_def)
  note t1 = stored_or_more_recent [OF r s f q, of "[]" "Err NotFound ''repo: not found''"
      "[demo_v ''/ipfs/QmV2'']"]
  note t2 = stored_or_more_recent [OF r s f q, of "[demo_v ''/ipfs/QmV1'']" _ _ "demo_v ''/ipfs/QmV1''"
      "Some 10" "Some 20"]
  from t1 g1 have a: "AddDataset demo_collab \<lparr>Online = True\<rparr> (Some \<lparr>pk = 7\<rparr>) ''http://registry.example''
       (demo_v ''/ipfs/QmV2'') [] ?es
   = Some \<lparr>add_error = None, added_ref = demo_v ''/ipfs/QmV2'',
           added_repo = [demo_v ''/ipfs/QmV2''], started = [RegistryTask, P2PTask]\<rparr>"
    by (simp add: demo_launch)
  from t2 g2 have b: "AddDataset demo_collab \<lparr>Online = True\<rparr> (Some \<lparr>pk = 7\<rparr>) ''http://registry.example''
       (demo_v ''/ipfs/QmV2'') [demo_v ''/ipfs/QmV1''] ?es
   = Some \<lparr>add_error = None, added_ref = (demo_v ''/ipfs/QmV2'')\<lparr>Dataset := Some 20\<rparr>,
           added_repo = [(demo_v ''/ipfs/QmV2'')\<lparr>Dataset := Some 20\<rparr>],
           started = [RegistryTask, P2PTask]\<rparr>"
    by (simp add: demo_launch w)
  from a b show ?thesis by blast
qed

subsection \<open>Best-effort log pull\<close>

text \<open>
  C9.  When \<^verbatim>\<open>Add\<close> runs locally on a reference that parses, it first calls
  \<^verbatim>\<open>PullLogs\<close> on the remote address; whatever \<^verbatim>\<open>PullLogs\<close> returns, \<^verbatim>\<open>Add\<close> goes on
  to \<^verbatim>\<open>AddDataset\<close> with the same reference and address, and its error and result are
  those of that continuation.  A failure of \<^verbatim>\<open>PullLogs\<close> only adds the line
  \<^verbatim>\<open>pulling logs: ...\<close> to the log, before the call of \<^verbatim>\<open>AddDataset\<close>.
\<close>

theorem pull_logs_best_effort:
  assumes "cli rq = None" and "ParseDatasetRef L (AddParams_Ref p) = Inr ref"
    and "p1 = (case inst rq of
                 None \<Rightarrow> p
               | Some i \<Rightarrow>
                   (case Registry_Location L i of
                      None \<Rightarrow> p
                    | Some loc \<Rightarrow> if RemoteAddr p = [] then p\<lparr>RemoteAddr := loc\<rparr> else p))"
    and "PullLogs x (RemoteClient L (inst rq)) (ConvertToDsref L ref) (RemoteAddr p1)
           = (pullLogsErr, fx)"
  shows "Add L x rq p res
           = (fst (add_dataset L rq p1 ref res), fst (snd (add_dataset L rq p1 ref res)),
              map ClientEffect fx
              @ (case pullLogsErr of
                   None \<Rightarrow> []
                 | Some le \<Rightarrow> [LogErrorf (''pulling logs: '' @ Error_string le)])
              @ snd (snd (add_dataset L rq p1 ref res)))
         \<and> (\<exists>calls. snd (snd (add_dataset L rq p1 ref res))
                       = AddDatasetCall ref (RemoteAddr p1) # calls)"
proof -
  have "\<exists>calls. snd (snd (add_dataset L rq p1 ref res)) = AddDatasetCall ref (RemoteAddr p1) # calls"
    by (simp add: add_dataset_def split: prod.splits option.splits)
  moreover have "Add L x rq p res
           = (fst (add_dataset L rq p1 ref res), fst (snd (add_dataset L rq p1 ref res)),
              map ClientEffect fx
              @ (case pullLogsErr of
                   None \<Rightarrow> []
                 | Some le \<Rightarrow> [LogErrorf (''pulling logs: '' @ Error_string le)])
              @ snd (snd (add_dataset L rq p1 ref res)))"
    unfolding Add_def using assms(1,2,4) unfolding assms(3)
    by (simp add: Let_def split: prod.splits)
  ultimately show ?thesis by blast
qed

text \<open>
  Without a remote client \<^verbatim>\<open>PullLogs\<close> fails; the failure is logged and the dataset
  is added all the same.
\<close>

theorem pull_logs_best_effort_witness:
  "Add demo_lib demo_ext \<lparr>cli = None, inst = None\<rparr>
       \<lparr>AddParams_Ref = ''b5/world_bank_population'', LinkDir = [],
        RemoteAddr = ''http://registry.example''\<rparr> demo_ref
   = (None, demo_ref\<lparr>Path := ''/ipfs/QmV3''\<rparr>,
      [LogErrorf ''pulling logs: remote: no client to make remote requests'',
       AddDatasetCall (demo_ref\<lparr>Path := []\<rparr>) ''http://registry.example''])"
proof -
  let ?p = "\<lparr>AddParams_Ref = ''b5/world_bank_population'', LinkDir = [],
        RemoteAddr = ''http://registry.example''\<rparr>"
  let ?rq = "\<lparr>cli = None, inst = None\<rparr> :: (unit, unit) DatasetRequests"
  have 1: "cli ?rq = None" by simp
  have 2: "ParseDatasetRef demo_lib (AddParams_Ref ?p) = Inr (demo_ref\<lparr>Path := []\<rparr>)"
    by (simp add: demo_lib_fields)
  have 3: "?p = (case inst ?rq of
                 None \<Rightarrow> ?p
               | Some i \<Rightarrow>
                   (case Registry_Location demo_lib i of
                      None \<Rightarrow> ?p
                    | Some loc \<Rightarrow> if RemoteAddr ?p = [] then ?p\<lparr>RemoteAddr := loc\<rparr> else ?p))"
    by simp
  have 4: "PullLogs demo_ext (RemoteClient demo_lib (inst ?rq))
             (ConvertToDsref demo_lib (demo_ref\<lparr>Path := []\<rparr>)) (RemoteAddr ?p)
           = (Some ErrNoRemoteClient, [])"
    by (simp add: demo_lib_fields PullLogs_def)
  have ad: "add_dataset demo_lib ?rq ?p (demo_ref\<lparr>Path := []\<rparr>) demo_ref
            = (None, demo_ref\<lparr>Path := ''/ipfs/QmV3''\<rparr>,
               [AddDatasetCall (demo_ref\<lparr>Path := []\<rparr>) ''http://registry.example''])"
    by (simp add: add_dataset_def demo_lib_fields demo_ref_def)
  from pull_logs_best_effort [OF 1 2 3 4, of demo_ref]
  show ?thesis by (simp add: ad ErrNoRemoteClient_def)
qed

subsection \<open>Private keys\<close>

lemma blank_keys_idem: "blank_keys (blank_keys c) = blank_keys c"
  by (simp add: blank_keys_def option.map_comp comp_def)

lemma blank_keys_blank:
  "Profile (blank_keys c) = Some pro \<Longrightarrow> Profile_PrivKey pro = []"
  "P2P (blank_keys c) = Some p2p \<Longrightarrow> P2P_PrivKey p2p = []"
  by (auto simp: blank_keys_def)

lemma GetConfig_blank:
  assumes "\<not> WithPrivateKey params"
  shows "GetConfig E params data (Some c) = GetConfig E params data (Some (blank_keys c))"
proof -
  have "(if \<not> WithPrivateKey params then blank_keys (blank_keys c) else blank_keys c) = blank_keys c"
    using assms by (simp add: blank_keys_idem)
  moreover have "(if \<not> WithPrivateKey params then blank_keys c else c) = blank_keys c"
    using assms by simp
  ultimately show ?thesis
    unfolding GetConfig_def by (simp only: option.case Let_def)
qed

lemma GetConfig_bytes:
  assumes "\<not> WithPrivateKey params"
  shows "fst (snd (GetConfig E params data (Some c))) = data
       \<or> (\<exists>enc. (enc = Whole (blank_keys c)
                  \<or> (\<exists>v. Config_Get E (blank_keys c) (Field params) = Inr v \<and> enc = FieldValue v))
               \<and> fst (snd (GetConfig E params data (Some c)))
                   \<in> {fst (json_Marshal E enc), fst (json_MarshalIndent E enc),
                      fst (yaml_Marshal E enc)})"
proof -
  let ?cfg = "blank_keys c"
  let ?sel = "(if Field params \<noteq> []
                    then (case Config_Get E ?cfg (Field params) of
                            Inl e \<Rightarrow>
                              Inl (Errorf (''error getting '' @ Field params @ '' from config: ''
                                           @ Error_string e))
                          | Inr v \<Rightarrow> Inr (FieldValue v))
                    else Inr (Whole ?cfg))"
  have g: "GetConfig E params data (Some c) =
     (case ?sel of
                Inl e \<Rightarrow> (Some e, data, Some ?cfg)
              | Inr encode \<Rightarrow>
                  (case (if Format params = ''json''
                         then (if Concise params then json_Marshal E encode
                               else json_MarshalIndent E encode)
                         else if Format params = ''yaml'' then yaml_Marshal E encode
                         else (data, None)) of
                     (data', Some e) \<Rightarrow>
                       (Some (Errorf (''error getting config: '' @ Error_string e)), data', Some ?cfg)
                   | (data', None) \<Rightarrow> (None, data', Some ?cfg)))"
  proof -
    have cfgeq: "(if \<not> WithPrivateKey params then blank_keys c else c) = blank_keys c"
      using assms by simp
    show ?thesis by (simp only: GetConfig_def option.case cfgeq Let_def)
  qed
  show ?thesis
  proof (cases ?sel)
    case (Inl e)
    then show ?thesis unfolding g by (simp only: sum.case fst_conv snd_conv simp_thms)
  next
    case (Inr enc)
    then have e: "enc = Whole ?cfg
                  \<or> (\<exists>v. Config_Get E ?cfg (Field params) = Inr v \<and> enc = FieldValue v)"
      by (cases "Field params = []"; cases "Config_Get E ?cfg (Field params)") simp_all
    let ?m = "(if Format params = ''json''
                         then (if Concise params then json_Marshal E enc
                               else json_MarshalIndent E enc)
                         else if Format params = ''yaml'' then yaml_Marshal E enc
                         else (data, None))"
    have b: "fst (snd (GetConfig E params data (Some c))) = fst ?m"
      unfolding g Inr by (cases ?m; cases "snd ?m"; simp only: sum.case prod.case option.case fst_conv snd_conv)
    have "fst ?m = data \<or> fst ?m \<in> {fst (json_Marshal E enc), fst (json_MarshalIndent E enc),
                      fst (yaml_Marshal E enc)}"
      by simp
    with b e show ?thesis by metis
  qed
qed

text \<open>
  C10.  Without \<^verbatim>\<open>WithPrivateKey\<close>, on a configuration \<open>c\<close>: the configuration with
  blank keys has an empty private key in its profile and in its P2P section; the bytes
  returned are the caller's own (no known format, or the field is missing), or the encoding
  of that configuration or of a field read from it; and two configurations that are equal
  once their keys are blanked give the same error, the same bytes and the same global
  configuration afterwards.
\<close>

theorem private_keys_blanked:
  assumes "\<not> WithPrivateKey params"
  shows "(\<forall>pro. Profile (blank_keys c) = Some pro \<longrightarrow> Profile_PrivKey pro = [])
       \<and> (\<forall>p2p. P2P (blank_keys c) = Some p2p \<longrightarrow> P2P_PrivKey p2p = [])
       \<and> (fst (snd (GetConfig E params data (Some c))) = data
          \<or> (\<exists>enc. (enc = Whole (blank_keys c)
                     \<or> (\<exists>v. Config_Get E (blank_keys c) (Field params) = Inr v
                            \<and> enc = FieldValue v))
                  \<and> fst (snd (GetConfig E params data (Some c)))
                      \<in> {fst (json_Marshal E enc), fst (json_MarshalIndent E enc),
                         fst (yaml_Marshal E enc)}))
       \<and> (blank_keys c = blank_keys c'
            \<longrightarrow> GetConfig E params data (Some c) = GetConfig E params data (Some c'))"
proof -
  have 1: "\<forall>pro. Profile (blank_keys c) = Some pro \<longrightarrow> Profile_PrivKey pro = []"
    using blank_keys_blank(1) by blast
  have 2: "\<forall>p2p. P2P (blank_keys c) = Some p2p \<longrightarrow> P2P_PrivKey p2p = []"
    using blank_keys_blank(2) by blast
  note 3 = GetConfig_bytes [OF assms, of E data c]
  have 4: "blank_keys c = blank_keys c'
            \<longrightarrow> GetConfig E params data (Some c) = GetConfig E params data (Some c')"
  proof
    assume "blank_keys c = blank_keys c'"
    then show "GetConfig E params data (Some c) = GetConfig E params data (Some c')"
      using GetConfig_blank [OF assms, of E data c] GetConfig_blank [OF assms, of E data c']
      by (simp only:)
  qed
  from 1 2 3 4 show ?thesis by (intro conjI)
qed

lemma demo_codec_fields:
  "json_Marshal demo_codec = (\<lambda>enc. (demo_render enc, None))"
  by (simp add: demo_codec_def)

text \<open>
  Two configurations with different keys give the same output, in which both keys are
  empty; the global configuration has lost its keys as well.
\<close>

theorem private_keys_blanked_witness:
  "GetConfig demo_codec \<lparr>WithPrivateKey = False, Format = ''json'', Concise = True, Field = []\<rparr>
      [] (Some (demo_config ''secret-a'' ''secret-b''))
   = GetConfig demo_codec \<lparr>WithPrivateKey = False, Format = ''json'', Concise = True, Field = []\<rparr>
      [] (Some (demo_config ''other-a'' ''other-b''))
   \<and> GetConfig demo_codec \<lparr>WithPrivateKey = False, Format = ''json'', Concise = True, Field = []\<rparr>
      [] (Some (demo_config ''secret-a'' ''secret-b''))
   = (None, bytes_of ''profile.privkey=;p2p.privkey='', Some (demo_config [] []))"
proof -
  let ?params = "\<lparr>WithPrivateKey = False, Format = ''json'', Concise = True, Field = []\<rparr>"
  have h: "\<not> WithPrivateKey ?params" by simp
  have b1: "blank_keys (demo_config ''secret-a'' ''secret-b'') = demo_config [] []"
    by (simp add: blank_keys_def demo_config_def)
  have b2: "blank_keys (demo_config ''other-a'' ''other-b'') = demo_config [] []"
    by (simp add: blank_keys_def demo_config_def)
  from private_keys_blanked [OF h, of "demo_config ''secret-a'' ''secret-b''" demo_codec "[]"
      "demo_config ''other-a'' ''other-b''"] b1 b2
  have 1: "GetConfig demo_codec ?params [] (Some (demo_config ''secret-a'' ''secret-b''))
         = GetConfig demo_codec ?params [] (Some (demo_config ''other-a'' ''other-b''))"
    by (simp only:)
  have r: "demo_render (Whole (demo_config [] [])) = bytes_of ''profile.privkey=;p2p.privkey=''"
    by (simp add: demo_render_def demo_config_def)
  have 2: "GetConfig demo_codec ?params [] (Some (demo_config ''secret-a'' ''secret-b''))
     = (None, bytes_of ''profile.privkey=;p2p.privkey='', Some (demo_config [] []))"
    by (simp add: GetConfig_def b1 demo_codec_fields r)
  from 1 2 show ?thesis by (simp only:)
qed

end
